theory Spec2Isabelle
  imports Main "HOL-Library.Word"
begin

unbundle bit_operations_syntax

section \<open>JavaScript values and errors\<close>

text \<open>
  The values the identity subsystem handles are what \<^verbatim>\<open>JSON.parse\<close> and the command line
  produce, plus \<^verbatim>\<open>undefined\<close>. An object is an association list read with \<open>map_of\<close>.
  Numbers are the integers (agent identifiers are token ids) and \<^verbatim>\<open>NaN\<close>, which
  \<^verbatim>\<open>parseInt\<close> yields; a string holds the UTF-8 bytes of the JavaScript string.
\<close>

datatype jsval =
    JUndefined
  | JNull
  | JBool bool
  | JNum int
  | JNaN
  | JStr string
  | JArr "jsval list"
  | JObj "(string \<times> jsval) list"

text \<open>ToBoolean: what \<^verbatim>\<open>if (v)\<close>, \<^verbatim>\<open>!v\<close>, \<^verbatim>\<open>v ? a : b\<close> and \<^verbatim>\<open>v || d\<close> test.\<close>

fun truthy :: "jsval \<Rightarrow> bool" where
  "truthy JUndefined = False"
| "truthy JNull = False"
| "truthy (JBool b) = b"
| "truthy (JNum n) = (n \<noteq> 0)"
| "truthy JNaN = False"
| "truthy (JStr s) = (s \<noteq> [])"
| "truthy (JArr xs) = True"
| "truthy (JObj kvs) = True"

text \<open>\<^verbatim>\<open>a || b\<close>\<close>

definition js_or :: "jsval \<Rightarrow> jsval \<Rightarrow> jsval" where
  "js_or a b = (if truthy a then a else b)"

text \<open>
  \<^verbatim>\<open>a === b\<close>. Two primitives are equal when they are the same value (\<^verbatim>\<open>NaN\<close> never
  is); an array or object is equal only to itself, and every comparison of the program has a
  freshly computed string or \<^verbatim>\<open>null\<close> on one side, so such a pair is never identical.
\<close>

fun strict_eq :: "jsval \<Rightarrow> jsval \<Rightarrow> bool" where
  "strict_eq JUndefined JUndefined = True"
| "strict_eq JNull JNull = True"
| "strict_eq (JBool a) (JBool b) = (a = b)"
| "strict_eq (JNum a) (JNum b) = (a = b)"
| "strict_eq (JStr a) (JStr b) = (a = b)"
| "strict_eq _ _ = False"

text \<open>
  What can be thrown: a file-system error with its code, the errors of the language, a
  contract call that reverts (\<open>ContractError\<close>, as \<^verbatim>\<open>ownerOf\<close> does for a token that does
  not exist), an RPC endpoint that cannot be reached or times out (\<open>NetworkError\<close>), and a
  rejected \<^verbatim>\<open>fetch\<close>.
\<close>

datatype error =
    SystemError string
  | TypeError
  | SyntaxError
  | URIError
  | RangeError
  | ContractError
  | NetworkError
  | FetchError

text \<open>\<^verbatim>\<open>err.code\<close>: file-system errors carry a code such as \<^verbatim>\<open>ENOENT\<close> or \<^verbatim>\<open>EACCES\<close>.\<close>

fun err_code :: "error \<Rightarrow> jsval" where
  "err_code (SystemError c) = JStr c"
| "err_code _ = JUndefined"

text \<open>
  \<^verbatim>\<open>obj[key]\<close> for the property names this program reads (file names, \<^verbatim>\<open>_composite\<close>,
  configuration and registration fields): a \<^verbatim>\<open>TypeError\<close> on \<^verbatim>\<open>null\<close> and
  \<^verbatim>\<open>undefined\<close>, \<^verbatim>\<open>undefined\<close> on every other value that is not an object with that key.
\<close>

fun get_prop :: "jsval \<Rightarrow> string \<Rightarrow> error + jsval" where
  "get_prop JUndefined k = Inl TypeError"
| "get_prop JNull k = Inl TypeError"
| "get_prop (JObj kvs) k = Inr (case map_of kvs k of None \<Rightarrow> JUndefined | Some v \<Rightarrow> v)"
| "get_prop _ k = Inr JUndefined"

text \<open>\<^verbatim>\<open>obj?.[key]\<close>\<close>

fun get_prop_opt :: "jsval \<Rightarrow> string \<Rightarrow> jsval" where
  "get_prop_opt (JObj kvs) k = (case map_of kvs k of None \<Rightarrow> JUndefined | Some v \<Rightarrow> v)"
| "get_prop_opt _ k = JUndefined"

section \<open>The hash primitive: the Keccak sponge\<close>

text \<open>
  \<^verbatim>\<open>createHash("sha3-256")\<close> is the SHA3-256 of FIPS 202: the Keccak-f[1600] permutation on
  25 lanes of 64 bits (lane \<open>x + 5 * y\<close> of the list is lane \<open>(x, y)\<close>), rate 136 bytes,
  the message followed by the domain byte \<open>0x06\<close> and the final bit \<open>0x80\<close>, 32 bytes of
  output. Ethereum's keccak-256 is the same sponge with the domain byte \<open>0x01\<close>.
  Lanes are naturals below \<open>2 ^ 64\<close>.
\<close>

type_synonym byte = "8 word"
type_synonym lane = nat

definition rotl64 :: "nat \<Rightarrow> lane \<Rightarrow> lane" where
  "rotl64 k x = push_bit k (take_bit (64 - k) x) OR drop_bit (64 - k) x"

definition not64 :: "lane \<Rightarrow> lane" where
  "not64 x = x XOR 0xFFFFFFFFFFFFFFFF"

fun xor_lanes :: "lane list \<Rightarrow> lane list \<Rightarrow> lane list" where
  "xor_lanes (x # xs) (y # ys) = (x XOR y) # xor_lanes xs ys"
| "xor_lanes _ _ = []"

fun theta_c :: "lane list \<Rightarrow> lane list" where
  "theta_c (a0 # a1 # a2 # a3 # a4 # rest) = xor_lanes [a0, a1, a2, a3, a4] (theta_c rest)"
| "theta_c _ = [0, 0, 0, 0, 0]"

fun theta_d :: "lane list \<Rightarrow> lane list" where
  "theta_d [c0, c1, c2, c3, c4] =
     [c4 XOR rotl64 1 c1, c0 XOR rotl64 1 c2, c1 XOR rotl64 1 c3,
      c2 XOR rotl64 1 c4, c3 XOR rotl64 1 c0]"
| "theta_d _ = []"

definition rep5 :: "lane list \<Rightarrow> lane list" where
  "rep5 d = d @ d @ d @ d @ d"

definition theta :: "lane list \<Rightarrow> lane list" where
  "theta a = xor_lanes a (rep5 (theta_d (theta_c a)))"

fun rho_pi :: "lane list \<Rightarrow> lane list" where
  "rho_pi [a0, a1, a2, a3, a4, a5, a6, a7, a8, a9, a10, a11, a12, a13, a14,
           a15, a16, a17, a18, a19, a20, a21, a22, a23, a24] =
     [a0, rotl64 44 a6, rotl64 43 a12, rotl64 21 a18, rotl64 14 a24,
      rotl64 28 a3, rotl64 20 a9, rotl64 3 a10, rotl64 45 a16, rotl64 61 a22,
      rotl64 1 a1, rotl64 6 a7, rotl64 25 a13, rotl64 8 a19, rotl64 18 a20,
      rotl64 27 a4, rotl64 36 a5, rotl64 10 a11, rotl64 15 a17, rotl64 56 a23,
      rotl64 62 a2, rotl64 55 a8, rotl64 39 a14, rotl64 41 a15, rotl64 2 a21]"
| "rho_pi _ = []"

fun chi :: "lane list \<Rightarrow> lane list" where
  "chi (b0 # b1 # b2 # b3 # b4 # rest) =
     [b0 XOR (not64 b1 AND b2), b1 XOR (not64 b2 AND b3), b2 XOR (not64 b3 AND b4),
      b3 XOR (not64 b4 AND b0), b4 XOR (not64 b0 AND b1)] @ chi rest"
| "chi _ = []"

fun iota :: "lane \<Rightarrow> lane list \<Rightarrow> lane list" where
  "iota rc [] = []"
| "iota rc (l # ls) = (l XOR rc) # ls"

definition keccak_round :: "lane list \<Rightarrow> lane \<Rightarrow> lane list" where
  "keccak_round a rc = iota rc (chi (rho_pi (theta a)))"

definition keccak_rc :: "lane list" where
  "keccak_rc =
    [0x0000000000000001, 0x0000000000008082, 0x800000000000808A, 0x8000000080008000,
     0x000000000000808B, 0x0000000080000001, 0x8000000080008081, 0x8000000000008009,
     0x000000000000008A, 0x0000000000000088, 0x0000000080008009, 0x000000008000000A,
     0x000000008000808B, 0x800000000000008B, 0x8000000000008089, 0x8000000000008003,
     0x8000000000008002, 0x8000000000000080, 0x000000000000800A, 0x800000008000000A,
     0x8000000080008081, 0x8000000000008080, 0x0000000080000001, 0x8000000080008008]"

definition keccak_f :: "lane list \<Rightarrow> lane list" where
  "keccak_f a = foldl keccak_round a keccak_rc"

text \<open>Bytes and lanes, little-endian.\<close>

fun lane_of_bytes :: "nat list \<Rightarrow> lane" where
  "lane_of_bytes [] = 0"
| "lane_of_bytes (b # bs) = b + 256 * lane_of_bytes bs"

fun bytes_of_lane :: "nat \<Rightarrow> lane \<Rightarrow> nat list" where
  "bytes_of_lane 0 x = []"
| "bytes_of_lane (Suc n) x = (x mod 256) # bytes_of_lane n (x div 256)"

fun lanes_of_block :: "nat list \<Rightarrow> lane list" where
  "lanes_of_block (b0 # b1 # b2 # b3 # b4 # b5 # b6 # b7 # rest) =
     lane_of_bytes [b0, b1, b2, b3, b4, b5, b6, b7] # lanes_of_block rest"
| "lanes_of_block _ = []"

text \<open>The block is xored into the first lanes of the state; the capacity lanes stay.\<close>

fun xor_block :: "lane list \<Rightarrow> lane list \<Rightarrow> lane list" where
  "xor_block (s # st) (b # bl) = (s XOR b) # xor_block st bl"
| "xor_block st _ = st"

definition rate_bytes :: nat where
  "rate_bytes = 136"

text \<open>Domain byte, zeros, and the final bit in the last byte of the block.\<close>

definition pad :: "nat \<Rightarrow> nat list \<Rightarrow> nat list" where
  "pad suffix m =
     (let q = rate_bytes - length m mod rate_bytes
      in if q = 1 then m @ [suffix + 0x80]
         else m @ [suffix] @ replicate (q - 2) 0 @ [0x80])"

fun absorb :: "nat \<Rightarrow> lane list \<Rightarrow> nat list \<Rightarrow> lane list" where
  "absorb 0 st bs = st"
| "absorb (Suc n) st bs =
     absorb n (keccak_f (xor_block st (lanes_of_block (take rate_bytes bs)))) (drop rate_bytes bs)"

definition squeeze256 :: "lane list \<Rightarrow> nat list" where
  "squeeze256 st = concat (map (bytes_of_lane 8) (take 4 st))"

definition sponge256 :: "nat \<Rightarrow> byte list \<Rightarrow> byte list" where
  "sponge256 suffix m =
     (let p = pad suffix (map unat m)
      in map of_nat (squeeze256 (absorb (length p div rate_bytes) (replicate 25 0) p)))"

definition sha3_256 :: "byte list \<Rightarrow> byte list" where
  "sha3_256 = sponge256 0x06"

definition ethereum_keccak_256 :: "byte list \<Rightarrow> byte list" where
  "ethereum_keccak_256 = sponge256 0x01"

text \<open>\<^verbatim>\<open>digest("hex")\<close>: two lower-case digits per byte.\<close>

definition hex_digit :: "nat \<Rightarrow> char" where
  "hex_digit n = ''0123456789abcdef'' ! (n mod 16)"

definition hex_of_byte :: "byte \<Rightarrow> string" where
  "hex_of_byte b = [hex_digit (unat b div 16), hex_digit (unat b mod 16)]"

definition hex :: "byte list \<Rightarrow> string" where
  "hex bs = concat (map hex_of_byte bs)"

section \<open>Hashing engine (hash-identity.mjs)\<close>

definition IDENTITY_FILES :: "string list" where
  "IDENTITY_FILES = [''SOUL.md'', ''USER.md'', ''IDENTITY.md'']"

text \<open>\<^verbatim>\<open>function keccak256(data)\<close>: the prefix and the hex digest of \<^verbatim>\<open>sha3-256\<close>.\<close>

definition keccak256 :: "byte list \<Rightarrow> string" where
  "keccak256 data = ''0x'' @ hex (sha3_256 data)"

text \<open>\<^verbatim>\<open>Buffer.from(str)\<close>: the UTF-8 bytes of the string.\<close>

definition Buffer_from :: "string \<Rightarrow> byte list" where
  "Buffer_from s = map of_char s"

text \<open>
  The file system at the time of the call: what \<^verbatim>\<open>readFile(path)\<close> resolves to or rejects
  with. \<^verbatim>\<open>path.join\<close> throws on a path that is not a string; its normalisation of the
  joined path is not modelled.
\<close>

type_synonym fs = "string \<Rightarrow> error + byte list"

fun path_join :: "jsval \<Rightarrow> string \<Rightarrow> error + string" where
  "path_join (JStr w) f = Inr (w @ ''/'' @ f)"
| "path_join _ f = Inl TypeError"

record file_entry =
  hash :: "string option"
  size_e :: nat
  exists_e :: bool
  path :: string

record composite_entry =
  c_hash :: string
  c_files :: "string list"

text \<open>
  The object \<^verbatim>\<open>results\<close>: one entry per file name, in the order of the loop, and
  \<^verbatim>\<open>_composite\<close>.
\<close>

record snapshot =
  entries :: "(string \<times> file_entry) list"
  s_composite :: composite_entry

text \<open>The \<^verbatim>\<open>for\<close> loop of \<^verbatim>\<open>hashIdentityFiles\<close>, one file name per step.\<close>

fun hash_files :: "fs \<Rightarrow> jsval \<Rightarrow> string list \<Rightarrow> error + (string \<times> file_entry) list" where
  "hash_files fs w [] = Inr []"
| "hash_files fs w (filename # rest) =
     (case path_join w filename of
        Inl e \<Rightarrow> Inl e
      | Inr filepath \<Rightarrow>
         (case fs filepath of
            Inr content \<Rightarrow>
              (case hash_files fs w rest of
                 Inl e \<Rightarrow> Inl e
               | Inr results \<Rightarrow>
                   Inr ((filename, \<lparr>hash = Some (keccak256 content), size_e = length content,
                                    exists_e = True, path = filepath\<rparr>) # results))
          | Inl err \<Rightarrow>
              if strict_eq (err_code err) (JStr ''ENOENT'') then
                (case hash_files fs w rest of
                   Inl e \<Rightarrow> Inl e
                 | Inr results \<Rightarrow>
                     Inr ((filename, \<lparr>hash = None, size_e = 0,
                                      exists_e = False, path = filepath\<rparr>) # results))
              else Inl err))"

definition ZERO_HASH :: string where
  "ZERO_HASH = ''0x'' @ replicate 64 CHR ''0''"

text \<open>\<^verbatim>\<open>results[f]?.hash || "0x" + "0".repeat(64)\<close>\<close>

definition hash_or_zero :: "(string \<times> file_entry) list \<Rightarrow> string \<Rightarrow> string" where
  "hash_or_zero results f =
     (case map_of results f of
        None \<Rightarrow> ZERO_HASH
      | Some e \<Rightarrow> (case hash e of
                    None \<Rightarrow> ZERO_HASH
                  | Some h \<Rightarrow> if h \<noteq> [] then h else ZERO_HASH))"

definition hashIdentityFiles :: "fs \<Rightarrow> jsval \<Rightarrow> error + snapshot" where
  "hashIdentityFiles fs workspacePath =
     (case hash_files fs workspacePath IDENTITY_FILES of
        Inl e \<Rightarrow> Inl e
      | Inr results \<Rightarrow>
          Inr \<lparr>entries = results,
               s_composite =
                 \<lparr>c_hash = keccak256 (Buffer_from (concat (map (hash_or_zero results) IDENTITY_FILES))),
                  c_files = IDENTITY_FILES\<rparr>\<rparr>)"

subsection \<open>Verification against expected hashes\<close>

datatype status = VERIFIED | MISMATCH | MISSING | NO_CHAIN_HASH

text \<open>
  The per-file result objects, by shape: \<open>Missing expected\<close> (actual is \<^verbatim>\<open>null\<close>),
  \<open>NoChainHash actual\<close>, \<open>Verified hash\<close>, \<open>Mismatch expected actual\<close>.
\<close>

datatype verdict =
    Missing jsval
  | NoChainHash "string option"
  | Verified "string option"
  | Mismatch jsval "string option"

fun status_of :: "verdict \<Rightarrow> status" where
  "status_of (Missing e) = MISSING"
| "status_of (NoChainHash a) = NO_CHAIN_HASH"
| "status_of (Verified h) = VERIFIED"
| "status_of (Mismatch e a) = MISMATCH"

record verify_result =
  verified :: bool
  files :: "(string \<times> verdict) list"
  composite :: "verdict option"
  timestamp :: string

fun js_of_hash :: "string option \<Rightarrow> jsval" where
  "js_of_hash None = JNull"
| "js_of_hash (Some h) = JStr h"

text \<open>
  The \<^verbatim>\<open>for\<close> loop of \<^verbatim>\<open>verifyIdentityFiles\<close>; \<open>r\<close> is the object \<^verbatim>\<open>results\<close> so far.
  Reading \<^verbatim>\<open>local.exists\<close> of an absent entry and indexing a \<^verbatim>\<open>null\<close>
  \<^verbatim>\<open>expectedHashes\<close> throw.
\<close>

fun verify_files :: "snapshot \<Rightarrow> jsval \<Rightarrow> string list \<Rightarrow> verify_result \<Rightarrow> error + verify_result" where
  "verify_files localHashes expectedHashes [] r = Inr r"
| "verify_files localHashes expectedHashes (filename # rest) r =
     (case get_prop expectedHashes filename of
        Inl e \<Rightarrow> Inl e
      | Inr expected \<Rightarrow>
         (case map_of (entries localHashes) filename of
            None \<Rightarrow> Inl TypeError
          | Some local \<Rightarrow>
              if \<not> exists_e local then
                verify_files localHashes expectedHashes rest
                  (r\<lparr>files := files r @ [(filename, Missing expected)], verified := False\<rparr>)
              else if \<not> truthy expected then
                verify_files localHashes expectedHashes rest
                  (r\<lparr>files := files r @ [(filename, NoChainHash (hash local))]\<rparr>)
              else if strict_eq (js_of_hash (hash local)) expected then
                verify_files localHashes expectedHashes rest
                  (r\<lparr>files := files r @ [(filename, Verified (hash local))]\<rparr>)
              else
                verify_files localHashes expectedHashes rest
                  (r\<lparr>files := files r @ [(filename, Mismatch expected (hash local))],
                     verified := False\<rparr>)))"

text \<open>The composite check that follows the loop.\<close>

definition verify_composite :: "snapshot \<Rightarrow> jsval \<Rightarrow> verify_result \<Rightarrow> error + verify_result" where
  "verify_composite localHashes expectedHashes r =
     (case get_prop expectedHashes ''_composite'' of
        Inl e \<Rightarrow> Inl e
      | Inr expected \<Rightarrow>
          if truthy expected then
            (if strict_eq (JStr (c_hash (s_composite localHashes))) expected then
               Inr (r\<lparr>composite := Some (Verified (Some (c_hash (s_composite localHashes))))\<rparr>)
             else
               Inr (r\<lparr>composite := Some (Mismatch expected (Some (c_hash (s_composite localHashes)))),
                      verified := False\<rparr>))
          else Inr r)"

text \<open>\<open>now\<close> is \<^verbatim>\<open>new Date().toISOString()\<close> at the time of the call.\<close>

definition verifyIdentityFiles :: "fs \<Rightarrow> string \<Rightarrow> jsval \<Rightarrow> jsval \<Rightarrow> error + verify_result" where
  "verifyIdentityFiles fs now workspacePath expectedHashes =
     (case hashIdentityFiles fs workspacePath of
        Inl e \<Rightarrow> Inl e
      | Inr localHashes \<Rightarrow>
         (case verify_files localHashes expectedHashes IDENTITY_FILES
                 \<lparr>verified = True, files = [], composite = None, timestamp = now\<rparr> of
            Inl e \<Rightarrow> Inl e
          | Inr r \<Rightarrow> verify_composite localHashes expectedHashes r))"

text \<open>
  \<^verbatim>\<open>newHashes[f]?.hash\<close>, and the expected-hashes object that the update workflow saves for
  offline verification (update-identity.mjs, the dry-run exit).
\<close>

definition entry_hash :: "snapshot \<Rightarrow> string \<Rightarrow> jsval" where
  "entry_hash s f = (case map_of (entries s) f of None \<Rightarrow> JUndefined | Some e \<Rightarrow> js_of_hash (hash e))"

definition expected_of_snapshot :: "snapshot \<Rightarrow> jsval" where
  "expected_of_snapshot newHashes =
     JObj [(''SOUL.md'', entry_hash newHashes ''SOUL.md''),
           (''USER.md'', entry_hash newHashes ''USER.md''),
           (''IDENTITY.md'', entry_hash newHashes ''IDENTITY.md''),
           (''_composite'', JStr (c_hash (s_composite newHashes)))]"


section \<open>Built-ins of the JavaScript runtime\<close>

text \<open>
  \<^verbatim>\<open>JSON.stringify\<close> (\<open>None\<close> is \<^verbatim>\<open>undefined\<close>), \<^verbatim>\<open>JSON.stringify(v, null, 2)\<close>,
  \<^verbatim>\<open>JSON.parse\<close>, \<^verbatim>\<open>decodeURIComponent\<close> and \<^verbatim>\<open>BigInt\<close> are parameters of the model: the
  program is verified for whatever they compute.
\<close>

record builtins =
  JSON_stringify :: "jsval \<Rightarrow> string option"
  JSON_stringify_indent :: "jsval \<Rightarrow> string"
  JSON_parse :: "string \<Rightarrow> error + jsval"
  decodeURIComponent :: "string \<Rightarrow> error + string"
  BigInt :: "jsval \<Rightarrow> error + int"

subsection \<open>Strings\<close>

fun starts_with :: "string \<Rightarrow> string \<Rightarrow> bool" where
  "starts_with [] s = True"
| "starts_with (p # ps) [] = False"
| "starts_with (p # ps) (c # cs) = (p = c \<and> starts_with ps cs)"

text \<open>\<^verbatim>\<open>s.replace(pat, rep)\<close> with a string pattern: the first occurrence only.\<close>

fun replace_first :: "string \<Rightarrow> string \<Rightarrow> string \<Rightarrow> string" where
  "replace_first pat rep [] = (if pat = [] then rep else [])"
| "replace_first pat rep (c # cs) =
     (if starts_with pat (c # cs) then rep @ drop (length pat) (c # cs)
      else c # replace_first pat rep cs)"

fun string_of_digit :: "nat \<Rightarrow> char" where
  "string_of_digit n = ''0123456789'' ! (n mod 10)"

function string_of_nat :: "nat \<Rightarrow> string" where
  "string_of_nat n =
     (if n < 10 then [string_of_digit n]
      else string_of_nat (n div 10) @ [string_of_digit (n mod 10)])"
  by pat_completeness auto
termination
  by (relation "measure id") auto

definition string_of_int :: "int \<Rightarrow> string" where
  "string_of_int i = (if i < 0 then ''-'' @ string_of_nat (nat (- i)) else string_of_nat (nat i))"

fun intercalate :: "string \<Rightarrow> string list \<Rightarrow> string" where
  "intercalate sep [] = []"
| "intercalate sep [x] = x"
| "intercalate sep (x # y # ys) = x @ sep @ intercalate sep (y # ys)"

text \<open>
  ToString, as a template literal applies it; an integer prints in decimal (the exponent
  form of numbers from \<open>10\<^sup>2\<^sup>1\<close> on is not modelled), an array joins its elements with commas,
  \<^verbatim>\<open>null\<close> and \<^verbatim>\<open>undefined\<close> elements printing as nothing.
\<close>

fun js_to_string :: "jsval \<Rightarrow> string" where
  "js_to_string JUndefined = ''undefined''"
| "js_to_string JNull = ''null''"
| "js_to_string (JBool b) = (if b then ''true'' else ''false'')"
| "js_to_string (JNum n) = string_of_int n"
| "js_to_string JNaN = ''NaN''"
| "js_to_string (JStr s) = s"
| "js_to_string (JArr xs) =
     intercalate '','' (map (\<lambda>x. if x = JNull \<or> x = JUndefined then [] else js_to_string x) xs)"
| "js_to_string (JObj kvs) = ''[object Object]''"

subsection \<open>UTF-8 and base64 of \<^verbatim>\<open>Buffer\<close>\<close>

text \<open>
  \<^verbatim>\<open>buf.toString("utf-8")\<close>: a well-formed sequence decodes to itself; every maximal
  ill-formed part is replaced by U+FFFD, which is \<open>EF BF BD\<close>.
\<close>

definition replacement :: "nat list" where
  "replacement = [0xEF, 0xBF, 0xBD]"

definition is_cont :: "nat \<Rightarrow> bool" where
  "is_cont b = (0x80 \<le> b \<and> b \<le> 0xBF)"

text \<open>The range of the second byte after the lead byte \<open>b\<close> of a 3- or 4-byte sequence.\<close>

definition second_ok :: "nat \<Rightarrow> nat \<Rightarrow> bool" where
  "second_ok b c =
     (if b = 0xE0 then 0xA0 \<le> c \<and> c \<le> 0xBF
      else if b = 0xED then 0x80 \<le> c \<and> c \<le> 0x9F
      else if b = 0xF0 then 0x90 \<le> c \<and> c \<le> 0xBF
      else if b = 0xF4 then 0x80 \<le> c \<and> c \<le> 0x8F
      else is_cont c)"

fun utf8_scrub :: "nat list \<Rightarrow> nat list" where
  "utf8_scrub [] = []"
| "utf8_scrub (b # bs) =
     (if b < 0x80 then b # utf8_scrub bs
      else if 0xC2 \<le> b \<and> b \<le> 0xDF then
        (case bs of
           c # cs \<Rightarrow> if is_cont c then b # c # utf8_scrub cs else replacement @ utf8_scrub bs
         | [] \<Rightarrow> replacement)
      else if 0xE0 \<le> b \<and> b \<le> 0xEF then
        (case bs of
           c # d # ds \<Rightarrow>
             if second_ok b c then
               (if is_cont d then b # c # d # utf8_scrub ds else replacement @ utf8_scrub (d # ds))
             else replacement @ utf8_scrub bs
         | [c] \<Rightarrow> if second_ok b c then replacement else replacement @ utf8_scrub bs
         | [] \<Rightarrow> replacement)
      else if 0xF0 \<le> b \<and> b \<le> 0xF4 then
        (case bs of
           c # d # e # es \<Rightarrow>
             if second_ok b c then
               (if is_cont d then
                  (if is_cont e then b # c # d # e # utf8_scrub es
                   else replacement @ utf8_scrub (e # es))
                else replacement @ utf8_scrub (d # e # es))
             else replacement @ utf8_scrub bs
         | [c, d] \<Rightarrow>
             if second_ok b c then
               (if is_cont d then replacement else replacement @ utf8_scrub [d])
             else replacement @ utf8_scrub bs
         | [c] \<Rightarrow> if second_ok b c then replacement else replacement @ utf8_scrub bs
         | [] \<Rightarrow> replacement)
      else replacement @ utf8_scrub bs)"

definition Buffer_toString :: "byte list \<Rightarrow> string" where
  "Buffer_toString bs = map char_of (utf8_scrub (map unat bs))"

text \<open>\<^verbatim>\<open>buf.toString("base64")\<close>: the standard alphabet, padded.\<close>

definition b64_char :: "nat \<Rightarrow> char" where
  "b64_char n = ''ABCDEFGHIJKLMNOPQRSTUVWXYZabcdefghijklmnopqrstuvwxyz0123456789+/'' ! (n mod 64)"

fun b64_encode :: "nat list \<Rightarrow> string" where
  "b64_encode (a # b # c # rest) =
     [b64_char (a div 4), b64_char ((a mod 4) * 16 + b div 16),
      b64_char ((b mod 16) * 4 + c div 64), b64_char (c mod 64)] @ b64_encode rest"
| "b64_encode [a, b] =
     [b64_char (a div 4), b64_char ((a mod 4) * 16 + b div 16), b64_char ((b mod 16) * 4), CHR ''='']"
| "b64_encode [a] = [b64_char (a div 4), b64_char ((a mod 4) * 16), CHR ''='', CHR ''='']"
| "b64_encode [] = []"

definition Buffer_toBase64 :: "byte list \<Rightarrow> string" where
  "Buffer_toBase64 bs = b64_encode (map unat bs)"

text \<open>
  \<^verbatim>\<open>Buffer.from(str, "base64")\<close>: the standard and the URL-safe alphabet are accepted, a
  character outside them is skipped, and decoding stops at the first padding character; a
  final group of two or three characters gives one or two bytes.
\<close>

definition b64_value :: "char \<Rightarrow> nat option" where
  "b64_value ch =
     (let n = (of_char ch :: nat) in
      if 65 \<le> n \<and> n \<le> 90 then Some (n - 65)
      else if 97 \<le> n \<and> n \<le> 122 then Some (n - 71)
      else if 48 \<le> n \<and> n \<le> 57 then Some (n + 4)
      else if ch = CHR ''+'' \<or> ch = CHR ''-'' then Some 62
      else if ch = CHR ''/'' \<or> ch = CHR ''_'' then Some 63
      else None)"

fun b64_sextets :: "string \<Rightarrow> nat list" where
  "b64_sextets [] = []"
| "b64_sextets (ch # cs) =
     (if ch = CHR ''='' then []
      else (case b64_value ch of
              None \<Rightarrow> b64_sextets cs
            | Some v \<Rightarrow> v # b64_sextets cs))"

fun b64_bytes :: "nat list \<Rightarrow> nat list" where
  "b64_bytes (p # q # r # s # rest) =
     [p * 4 + q div 16, (q mod 16) * 16 + r div 4, (r mod 4) * 64 + s] @ b64_bytes rest"
| "b64_bytes [p, q, r] = [p * 4 + q div 16, (q mod 16) * 16 + r div 4]"
| "b64_bytes [p, q] = [p * 4 + q div 16]"
| "b64_bytes _ = []"

definition Buffer_from_base64 :: "string \<Rightarrow> byte list" where
  "Buffer_from_base64 s = map of_nat (b64_bytes (b64_sextets s))"

subsection \<open>The two regular expressions of \<^verbatim>\<open>fetchRegistrationFile\<close>\<close>

text \<open>
  \<open>.\<close> matches any character but a line terminator: LF, CR, U+2028 and U+2029, the last
  two being \<open>E2 80 A8\<close> and \<open>E2 80 A9\<close> in a string.
\<close>

fun has_line_terminator :: "string \<Rightarrow> bool" where
  "has_line_terminator [] = False"
| "has_line_terminator (c # cs) =
     (c = CHR 0x0A \<or> c = CHR 0x0D \<or>
      (c = CHR 0xE2 \<and> (starts_with [CHR 0x80, CHR 0xA8] cs \<or> starts_with [CHR 0x80, CHR 0xA9] cs)) \<or>
      has_line_terminator cs)"

text \<open>
  \<^verbatim>\<open>/^data:[^X]*Y(.+)$/\<close> where \<open>Y\<close> begins with the character \<open>X\<close>: the class runs up
  to the first \<open>X\<close>, \<open>Y\<close> must follow, and the group is the rest of the string, which
  must be non-empty and free of line terminators. The result is the group.
\<close>

definition match_data :: "char \<Rightarrow> string \<Rightarrow> string \<Rightarrow> string option" where
  "match_data x y uri =
     (if starts_with ''data:'' uri then
        (let rest = dropWhile (\<lambda>c. c \<noteq> x) (drop 5 uri) in
         if starts_with y rest then
           (let g = drop (length y) rest in
            if g \<noteq> [] \<and> \<not> has_line_terminator g then Some g else None)
         else None)
      else None)"

definition match_base64 :: "string \<Rightarrow> string option" where
  "match_base64 uri = match_data CHR '';'' '';base64,'' uri"

definition match_plain :: "string \<Rightarrow> string option" where
  "match_plain uri = match_data CHR '','' '','' uri"

subsection \<open>\<^verbatim>\<open>JSON.stringify\<close>\<close>

text \<open>
  The text \<^verbatim>\<open>JSON.stringify\<close> produces for a value of the model, for the examples and for
  the round trip of the data URI. A control character, the quote and the backslash are
  escaped in a string; \<^verbatim>\<open>NaN\<close> and an \<^verbatim>\<open>undefined\<close> array element print as \<^verbatim>\<open>null\<close>; a
  property whose value is \<^verbatim>\<open>undefined\<close> is left out; the properties of an object are listed
  in the order of its association list.
\<close>

definition hex4 :: "nat \<Rightarrow> string" where
  "hex4 n = [hex_digit (n div 4096), hex_digit (n div 256), hex_digit (n div 16), hex_digit n]"

definition json_escape :: "char \<Rightarrow> string" where
  "json_escape c =
     (if c = CHR 0x08 then [CHR 0x5C, CHR ''b'']
      else if c = CHR 0x09 then [CHR 0x5C, CHR ''t'']
      else if c = CHR 0x0A then [CHR 0x5C, CHR ''n'']
      else if c = CHR 0x0C then [CHR 0x5C, CHR ''f'']
      else if c = CHR 0x0D then [CHR 0x5C, CHR ''r'']
      else if c = CHR 0x22 then [CHR 0x5C, CHR 0x22]
      else if c = CHR 0x5C then [CHR 0x5C, CHR 0x5C]
      else if (of_char c :: nat) < 0x20 then [CHR 0x5C, CHR ''u''] @ hex4 (of_char c)
      else [c])"

definition json_quote :: "string \<Rightarrow> string" where
  "json_quote s = [CHR 0x22] @ concat (map json_escape s) @ [CHR 0x22]"

fun json_text :: "jsval \<Rightarrow> string"
  and json_elements :: "jsval list \<Rightarrow> string list"
  and json_members :: "(string \<times> jsval) list \<Rightarrow> string list" where
  "json_text JUndefined = ''null''"
| "json_text JNull = ''null''"
| "json_text (JBool b) = (if b then ''true'' else ''false'')"
| "json_text (JNum n) = string_of_int n"
| "json_text JNaN = ''null''"
| "json_text (JStr s) = json_quote s"
| "json_text (JArr xs) = ''['' @ intercalate '','' (json_elements xs) @ '']''"
| "json_text (JObj kvs) = ''{'' @ intercalate '','' (json_members kvs) @ ''}''"
| "json_elements [] = []"
| "json_elements (x # xs) = json_text x # json_elements xs"
| "json_members [] = []"
| "json_members ((k, v) # kvs) =
     (if v = JUndefined then json_members kvs
      else (json_quote k @ '':'' @ json_text v) # json_members kvs)"

definition json_stringify :: "jsval \<Rightarrow> string option" where
  "json_stringify v = (if v = JUndefined then None else Some (json_text v))"

section \<open>Registration document builder (registration-builder.mjs)\<close>

text \<open>A destructuring default applies when the property is \<^verbatim>\<open>undefined\<close>.\<close>

definition with_default :: "jsval \<Rightarrow> jsval \<Rightarrow> jsval" where
  "with_default v d = (if v = JUndefined then d else v)"

text \<open>\<^verbatim>\<open>[...services]\<close>: an array spreads to its elements, a string to its characters; any
  other value of the model is not iterable.\<close>

fun spread :: "jsval \<Rightarrow> error + jsval list" where
  "spread (JArr xs) = Inr xs"
| "spread (JStr s) = Inr (map (\<lambda>c. JStr [c]) s)"
| "spread _ = Inl TypeError"

text \<open>\<^verbatim>\<open>identityHashes[f]?.hash || null\<close>\<close>

definition hash_or_null :: "snapshot \<Rightarrow> string \<Rightarrow> jsval" where
  "hash_or_null identityHashes f =
     js_or (case map_of (entries identityHashes) f of
              None \<Rightarrow> JUndefined
            | Some e \<Rightarrow> js_of_hash (hash e)) JNull"

definition identityFiles_of :: "string \<Rightarrow> snapshot \<Rightarrow> jsval" where
  "identityFiles_of now identityHashes =
     JObj [(''SOUL.md'', hash_or_null identityHashes ''SOUL.md''),
           (''USER.md'', hash_or_null identityHashes ''USER.md''),
           (''IDENTITY.md'', hash_or_null identityHashes ''IDENTITY.md''),
           (''_composite'', js_or (JStr (c_hash (s_composite identityHashes))) JNull),
           (''_algorithm'', JStr ''keccak256''),
           (''_hashDate'', JStr now)]"

text \<open>
  \<^verbatim>\<open>buildRegistration(config)\<close>. \<open>now\<close> is the clock, which does not advance during the
  call. Destructuring \<^verbatim>\<open>null\<close> or \<^verbatim>\<open>undefined\<close> throws.
\<close>

definition buildRegistration :: "fs \<Rightarrow> string \<Rightarrow> jsval \<Rightarrow> error + jsval" where
  "buildRegistration fs now config =
     (case get_prop config ''name'' of
        Inl e \<Rightarrow> Inl e
      | Inr name \<Rightarrow>
         (let description = get_prop_opt config ''description'';
              image = with_default (get_prop_opt config ''image'') (JStr '''');
              workspacePath = get_prop_opt config ''workspacePath'';
              ownerAddress = get_prop_opt config ''ownerAddress'';
              agentId = with_default (get_prop_opt config ''agentId'') JNull;
              chainId = with_default (get_prop_opt config ''chainId'') (JStr ''8453'');
              identityRegistry = with_default (get_prop_opt config ''identityRegistry'')
                                   (JStr ''0x8004A169FB4a3325136EB29fA0ceB6D2e539a432'');
              services = with_default (get_prop_opt config ''services'') (JArr []);
              supportedTrust = with_default (get_prop_opt config ''supportedTrust'')
                                 (JArr [JStr ''reputation'']);
              soulbound = with_default (get_prop_opt config ''soulbound'')
                            (JObj [(''locked'', JBool True), (''standard'', JStr ''ERC-5192'')])
          in
          (case (if truthy workspacePath
                 then map_sum id Some (hashIdentityFiles fs workspacePath)
                 else Inr None) of
             Inl e \<Rightarrow> Inl e
           | Inr identityHashes \<Rightarrow>
              (case spread services of
                 Inl e \<Rightarrow> Inl e
               | Inr svcs \<Rightarrow>
                  Inr (JObj
                    [(''type'', JStr ''https://eips.ethereum.org/EIPS/eip-8004#registration-v1''),
                     (''name'', name),
                     (''description'', description),
                     (''image'', image),
                     (''services'', JArr svcs),
                     (''x402Support'', JBool True),
                     (''active'', JBool True),
                     (''registrations'',
                        if truthy agentId then
                          JArr [JObj [(''agentId'', agentId),
                                      (''agentRegistry'',
                                         JStr (''eip155:'' @ js_to_string chainId @ '':'' @
                                               js_to_string identityRegistry))]]
                        else JArr []),
                     (''supportedTrust'', supportedTrust),
                     (''soulbound'', soulbound),
                     (''identityFiles'',
                        case identityHashes of
                          None \<Rightarrow> JNull
                        | Some h \<Rightarrow> identityFiles_of now h),
                     (''owner'', JObj [(''address'', ownerAddress),
                                       (''chain'', JStr (''eip155:'' @ js_to_string chainId))]),
                     (''_generatedAt'', JStr now),
                     (''_generator'', JStr ''soulbound-identity/registration-builder v1.0.0'')])))))"

text \<open>\<^verbatim>\<open>toBase64DataURI(registration)\<close>; \<^verbatim>\<open>Buffer.from(undefined)\<close> throws.\<close>

definition toBase64DataURI :: "builtins \<Rightarrow> jsval \<Rightarrow> error + string" where
  "toBase64DataURI B registration =
     (case JSON_stringify B registration of
        None \<Rightarrow> Inl TypeError
      | Some json \<Rightarrow> Inr (''data:application/json;base64,'' @ Buffer_toBase64 (Buffer_from json)))"

section \<open>Chain client (chain-client.mjs)\<close>

definition IDENTITY_REGISTRY :: string where
  "IDENTITY_REGISTRY = ''0x8004A169FB4a3325136EB29fA0ceB6D2e539a432''"

text \<open>
  The chain as the read calls see it: what \<^verbatim>\<open>readContract\<close> resolves to or rejects with
  for \<^verbatim>\<open>ownerOf\<close>, \<^verbatim>\<open>tokenURI\<close> and \<^verbatim>\<open>getAgentWallet\<close> of a token id.
\<close>

record chain =
  ownerOf :: "int \<Rightarrow> error + string"
  tokenURI :: "int \<Rightarrow> error + string"
  getAgentWallet :: "int \<Rightarrow> error + string"

text \<open>
  A response of \<^verbatim>\<open>fetch\<close>: \<^verbatim>\<open>res.ok\<close> and what \<^verbatim>\<open>res.json()\<close> resolves to or rejects
  with. The network maps a URL to a response or to a rejection; the abort after ten seconds
  is a rejection.
\<close>

record response =
  ok :: bool
  json :: "error + jsval"

type_synonym fetcher = "string \<Rightarrow> error + response"

text \<open>The URL that is fetched: an \<^verbatim>\<open>ipfs://\<close> URI goes through the gateway.\<close>

definition gateway_url :: "string \<Rightarrow> string" where
  "gateway_url uri =
     (if starts_with ''ipfs://'' uri
      then ''https://ipfs.io/ipfs/'' @ replace_first ''ipfs://'' [] uri
      else uri)"

text \<open>The body of the \<^verbatim>\<open>try\<close> block of \<^verbatim>\<open>fetchRegistrationFile\<close>.\<close>

definition fetch_body :: "builtins \<Rightarrow> fetcher \<Rightarrow> string \<Rightarrow> error + jsval" where
  "fetch_body B fetch uri =
     (if starts_with ''data:'' uri then
        (case match_base64 uri of
           Some m \<Rightarrow> JSON_parse B (Buffer_toString (Buffer_from_base64 m))
         | None \<Rightarrow>
            (case match_plain uri of
               Some m \<Rightarrow>
                 (case decodeURIComponent B m of
                    Inl e \<Rightarrow> Inl e
                  | Inr s \<Rightarrow> JSON_parse B s)
             | None \<Rightarrow> Inr JNull))
      else
        (case fetch (gateway_url uri) of
           Inl e \<Rightarrow> Inl e
         | Inr res \<Rightarrow> if \<not> ok res then Inr JNull else json res))"

text \<open>\<^verbatim>\<open>fetchRegistrationFile(uri)\<close>: the empty URI, and the \<^verbatim>\<open>catch\<close> around the body.\<close>

definition fetchRegistrationFile :: "builtins \<Rightarrow> fetcher \<Rightarrow> string \<Rightarrow> error + jsval" where
  "fetchRegistrationFile B fetch uri =
     (if uri = [] then Inr JNull
      else (case fetch_body B fetch uri of
              Inl e \<Rightarrow> Inr JNull
            | Inr v \<Rightarrow> Inr v))"

record chain_agent =
  a_agentId :: jsval
  a_owner :: string
  a_tokenURI :: string
  a_agentWallet :: jsval
  a_registration :: jsval

text \<open>
  \<^verbatim>\<open>lookupAgent(agentId)\<close>. \<^verbatim>\<open>Promise.all\<close> rejects when either read does; the wallet read
  is caught.
\<close>

definition lookupAgent :: "builtins \<Rightarrow> chain \<Rightarrow> fetcher \<Rightarrow> jsval \<Rightarrow> error + chain_agent" where
  "lookupAgent B ch fetch agentId =
     (case BigInt B agentId of
        Inl e \<Rightarrow> Inl e
      | Inr tokenId \<Rightarrow>
         (case ownerOf ch tokenId of
            Inl e \<Rightarrow> Inl e
          | Inr owner \<Rightarrow>
             (case tokenURI ch tokenId of
                Inl e \<Rightarrow> Inl e
              | Inr uri \<Rightarrow>
                 (let agentWallet = (case getAgentWallet ch tokenId of
                                       Inl e \<Rightarrow> JNull
                                     | Inr wallet \<Rightarrow> JStr wallet)
                  in case fetchRegistrationFile B fetch uri of
                       Inl e \<Rightarrow> Inl e
                     | Inr registration \<Rightarrow>
                         Inr \<lparr>a_agentId = agentId, a_owner = owner, a_tokenURI = uri,
                              a_agentWallet = agentWallet, a_registration = registration\<rparr>))))"

text \<open>
  Unsigned transactions. The call data is kept as the function and its arguments; the ABI
  encoding of \<^verbatim>\<open>encodeFunctionData\<close> is not modelled, only its refusal of a token id that is
  not a \<^verbatim>\<open>uint256\<close>. The descriptions are exact for ASCII URIs, which is what the
  workflows pass (\<^verbatim>\<open>slice\<close> counts UTF-16 units, \<open>take\<close> bytes).
\<close>

datatype contract_call =
    Call_register string
  | Call_setAgentURI int string

record unsigned_tx =
  tx_to :: string
  tx_data :: contract_call
  tx_description :: string

definition buildRegisterTx :: "string \<Rightarrow> unsigned_tx" where
  "buildRegisterTx agentURI =
     \<lparr>tx_to = IDENTITY_REGISTRY, tx_data = Call_register agentURI,
      tx_description = ''Register new agent with URI: '' @ take 80 agentURI @ ''...''\<rparr>"

definition buildUpdateURITx :: "builtins \<Rightarrow> jsval \<Rightarrow> string \<Rightarrow> error + unsigned_tx" where
  "buildUpdateURITx B agentId newURI =
     (case BigInt B agentId of
        Inl e \<Rightarrow> Inl e
      | Inr tokenId \<Rightarrow>
          if tokenId < 0 \<or> 2 ^ 256 \<le> tokenId then Inl RangeError
          else
            Inr \<lparr>tx_to = IDENTITY_REGISTRY, tx_data = Call_setAgentURI tokenId newURI,
                 tx_description = ''Update URI for agent #'' @ js_to_string agentId\<rparr>)"

section \<open>The command-line workflows\<close>

text \<open>
  The world a workflow runs in: the file system for reading, the outcome of
  \<^verbatim>\<open>writeFile(path, content)\<close> (\<open>None\<close> when it succeeds), the chain, the network and the
  clock.
\<close>

record world =
  w_fs :: fs
  w_write :: "string \<Rightarrow> string \<Rightarrow> error option"
  w_chain :: chain
  w_fetch :: fetcher
  w_now :: string

text \<open>\<^verbatim>\<open>readFile(path, "utf-8")\<close>\<close>

fun read_text :: "fs \<Rightarrow> jsval \<Rightarrow> error + string" where
  "read_text fs (JStr p) = map_sum id Buffer_toString (fs p)"
| "read_text fs _ = Inl TypeError"

text \<open>\<^verbatim>\<open>JSON.parse(await readFile(path, "utf-8"))\<close>\<close>

definition read_json :: "builtins \<Rightarrow> fs \<Rightarrow> jsval \<Rightarrow> error + jsval" where
  "read_json B fs p = (case read_text fs p of Inl e \<Rightarrow> Inl e | Inr raw \<Rightarrow> JSON_parse B raw)"

subsection \<open>Update workflow (update-identity.mjs)\<close>

record update_opts =
  u_config :: jsval
  u_dryRun :: bool
  u_sign :: bool
  u_output :: jsval
  u_ipfs :: bool
  u_verbose :: bool

record change =
  ch_file :: string
  ch_from :: jsval
  ch_to :: jsval

text \<open>What the workflow prints, by kind of message.\<close>

datatype report =
    Usage
  | NoUpdateNeeded
  | ChangesDetected
  | FirstTimeHashes
  | ChainReadFailed
  | NoAgentId
  | TxSetAgentURI
  | TxRegister
  | ErrorExit

record update_run =
  exit_code :: nat
  built_tx :: "unsigned_tx option"
  changes :: "change list"
  reports :: "report list"

text \<open>Step 1: the configuration and the fresh hashes; \<^verbatim>\<open>config.name\<close> is read for the banner.\<close>

definition load_config :: "builtins \<Rightarrow> fs \<Rightarrow> jsval \<Rightarrow> error + jsval \<times> snapshot" where
  "load_config B fs p =
     (case read_json B fs p of
        Inl e \<Rightarrow> Inl e
      | Inr config \<Rightarrow>
         (case get_prop config ''name'' of
            Inl e \<Rightarrow> Inl e
          | Inr name \<Rightarrow>
             (case hashIdentityFiles fs (get_prop_opt config ''workspacePath'') of
                Inl e \<Rightarrow> Inl e
              | Inr newHashes \<Rightarrow> Inr (config, newHashes))))"

text \<open>The loop that compares each file's local hash with the hash on chain.\<close>

fun diff_files :: "snapshot \<Rightarrow> jsval \<Rightarrow> string list \<Rightarrow> change list" where
  "diff_files newHashes onChain [] = []"
| "diff_files newHashes onChain (file # rest) =
     (let localHash = entry_hash newHashes file;
          chainHash = get_prop_opt onChain file
      in if \<not> strict_eq localHash chainHash then
           \<lparr>ch_file = file, ch_from = js_or chainHash (JStr ''(not set)''),
            ch_to = js_or localHash (JStr ''(missing)'')\<rparr> # diff_files newHashes onChain rest
         else diff_files newHashes onChain rest)"

text \<open>Step 2: either the workflow exits as a no-op, or it goes on with the changes found.\<close>

datatype chain_check = NoOp | Continue "change list" report

definition check_chain :: "builtins \<Rightarrow> world \<Rightarrow> jsval \<Rightarrow> snapshot \<Rightarrow> chain_check" where
  "check_chain B W config newHashes =
     (if truthy (get_prop_opt config ''agentId'') then
        (case lookupAgent B (w_chain W) (w_fetch W) (get_prop_opt config ''agentId'') of
           Inl e \<Rightarrow> Continue [] ChainReadFailed
         | Inr agent \<Rightarrow>
            (let currentRegistration = a_registration agent in
             if truthy (get_prop_opt currentRegistration ''identityFiles'') then
               (let changes = diff_files newHashes (get_prop_opt currentRegistration ''identityFiles'')
                                [''SOUL.md'', ''USER.md'', ''IDENTITY.md'']
                in if changes = [] then NoOp else Continue changes ChangesDetected)
             else
               Continue (map (\<lambda>f. \<lparr>ch_file = f, ch_from = JStr ''(not set)'',
                                    ch_to = js_or (entry_hash newHashes f) (JStr ''(missing)'')\<rparr>)
                           [''SOUL.md'', ''USER.md'', ''IDENTITY.md''])
                        FirstTimeHashes))
      else Continue [] NoAgentId)"

text \<open>Steps 3 and 4: the new registration, its data URI and the transaction.\<close>

definition build_tx :: "builtins \<Rightarrow> world \<Rightarrow> jsval \<Rightarrow> error + jsval \<times> unsigned_tx" where
  "build_tx B W config =
     (case buildRegistration (w_fs W) (w_now W) config of
        Inl e \<Rightarrow> Inl e
      | Inr registration \<Rightarrow>
         (case toBase64DataURI B registration of
            Inl e \<Rightarrow> Inl e
          | Inr agentURI \<Rightarrow>
              if truthy (get_prop_opt config ''agentId'') then
                (case buildUpdateURITx B (get_prop_opt config ''agentId'') agentURI of
                   Inl e \<Rightarrow> Inl e
                 | Inr tx \<Rightarrow> Inr (registration, tx))
              else Inr (registration, buildRegisterTx agentURI)))"

text \<open>
  Step 5, as an exit code. The dry run writes the registration and the expected hashes. The
  output mode reads \<^verbatim>\<open>CONTRACTS.CHAIN_ID\<close>, a name the script does not import: a
  \<^verbatim>\<open>ReferenceError\<close>, caught by \<^verbatim>\<open>main().catch\<close>. Without a mode, \<^verbatim>\<open>main\<close> returns.
\<close>

definition finish :: "builtins \<Rightarrow> world \<Rightarrow> update_opts \<Rightarrow> jsval \<Rightarrow> snapshot \<Rightarrow> nat" where
  "finish B W opts registration newHashes =
     (if u_dryRun opts then
        (case w_write W (replace_first ''.json'' ''-registration.json'' (js_to_string (u_config opts)))
                (JSON_stringify_indent B registration) of
           Some e \<Rightarrow> 3
         | None \<Rightarrow>
            (case w_write W (replace_first ''.json'' ''-expected-hashes.json'' (js_to_string (u_config opts)))
                    (JSON_stringify_indent B (expected_of_snapshot newHashes)) of
               Some e \<Rightarrow> 3
             | None \<Rightarrow> 0))
      else if truthy (u_output opts) then 3
      else if u_sign opts then 1
      else 0)"

definition update_main :: "builtins \<Rightarrow> world \<Rightarrow> update_opts \<Rightarrow> update_run" where
  "update_main B W opts =
     (if \<not> truthy (u_config opts) then
        \<lparr>exit_code = 1, built_tx = None, changes = [], reports = [Usage]\<rparr>
      else
        (case load_config B (w_fs W) (u_config opts) of
           Inl e \<Rightarrow> \<lparr>exit_code = 3, built_tx = None, changes = [], reports = [ErrorExit]\<rparr>
         | Inr (config, newHashes) \<Rightarrow>
            (case check_chain B W config newHashes of
               NoOp \<Rightarrow> \<lparr>exit_code = 0, built_tx = None, changes = [], reports = [NoUpdateNeeded]\<rparr>
             | Continue chs rep \<Rightarrow>
                (case build_tx B W config of
                   Inl e \<Rightarrow>
                     \<lparr>exit_code = 3, built_tx = None, changes = chs, reports = [rep, ErrorExit]\<rparr>
                 | Inr (registration, tx) \<Rightarrow>
                     \<lparr>exit_code = finish B W opts registration newHashes,
                      built_tx = Some tx, changes = chs,
                      reports = [rep, if truthy (get_prop_opt config ''agentId'')
                                      then TxSetAgentURI else TxRegister]\<rparr>))))"

subsection \<open>Verify workflow (verify-identity.mjs)\<close>






section \<open>Specification-level notions and example workspaces\<close>

text \<open>The entries \<^verbatim>\<open>hashIdentityFiles\<close> records for a document that was read and for one that is absent.\<close>

definition present_entry :: "string \<Rightarrow> string \<Rightarrow> byte list \<Rightarrow> file_entry" where
  "present_entry w f c = \<lparr>hash = Some (keccak256 c), size_e = length c, exists_e = True, path = w @ ''/'' @ f\<rparr>"

definition missing_entry :: "string \<Rightarrow> string \<Rightarrow> file_entry" where
  "missing_entry w f = \<lparr>hash = None, size_e = 0, exists_e = False, path = w @ ''/'' @ f\<rparr>"

definition entry_of_read :: "string \<Rightarrow> string \<Rightarrow> error + byte list \<Rightarrow> file_entry" where
  "entry_of_read w f r = (case r of Inr c \<Rightarrow> present_entry w f c | Inl e \<Rightarrow> missing_entry w f)"

definition fatal_read :: "error + byte list \<Rightarrow> bool" where
  "fatal_read r = (case r of Inr c \<Rightarrow> False | Inl e \<Rightarrow> err_code e \<noteq> JStr ''ENOENT'')"


text \<open>The classification of one document in the words of the specification.\<close>

definition classify :: "file_entry \<Rightarrow> jsval \<Rightarrow> verdict" where
  "classify loc expected =
     (if \<not> exists_e loc then Missing expected
      else if \<not> truthy expected then NoChainHash (hash loc)
      else if expected = js_of_hash (hash loc) then Verified (hash loc)
      else Mismatch expected (hash loc))"

definition passes :: "verdict \<Rightarrow> bool" where
  "passes v = (status_of v = VERIFIED \<or> status_of v = NO_CHAIN_HASH)"

text \<open>Verifying a workspace against the snapshot just computed from it.\<close>

definition self_check :: "fs \<Rightarrow> string \<Rightarrow> jsval \<Rightarrow> error + bool" where
  "self_check fs now w =
     (case hashIdentityFiles fs w of
        Inl e \<Rightarrow> Inl e
      | Inr snap \<Rightarrow>
         (case verifyIdentityFiles fs now w (expected_of_snapshot snap) of
            Inl e \<Rightarrow> Inl e
          | Inr r \<Rightarrow> Inr (verified r)))"

text \<open>
  Example workspaces: every document absent, one unreadable, all three present, only the
  first present.
\<close>

definition fs_absent :: fs where
  "fs_absent p = Inl (SystemError ''ENOENT'')"

definition fs_denied :: fs where
  "fs_denied p = (if p = ''ws/USER.md'' then Inl (SystemError ''EACCES'') else Inr [])"

definition fs_full :: fs where
  "fs_full p =
     (if p = ''ws/SOUL.md'' then Inr [1]
      else if p = ''ws/USER.md'' then Inr [2]
      else if p = ''ws/IDENTITY.md'' then Inr []
      else Inl (SystemError ''ENOENT''))"


definition exp_bad_user :: jsval where
  "exp_bad_user = JObj [(''SOUL.md'', JStr (keccak256 [1])), (''USER.md'', JStr ''bad'')]"

text \<open>The run that ends as a no-op.\<close>

definition noop_run :: update_run where
  "noop_run = \<lparr>exit_code = 0, built_tx = None, changes = [], reports = [NoUpdateNeeded]\<rparr>"


text \<open>
  Example runs. The configurations of three agents (identifiers 0, 7 and 8) over the
  workspace with all three documents; the registration of agent 7 carries the current
  hashes, that of agent 8 the current hashes of the documents and a stale composite, that of
  agent 6 an \<open>identityFiles\<close> object without entries; agent 5 has an empty token URI, agent 9
  does not exist and the reads for agent 11 do not reach the chain.
  \<open>B_ex\<close> holds the built-ins at the inputs of the examples.
\<close>

definition cfg_text_zero :: string where
  \<open>cfg_text_zero = ''{"name":"a","workspacePath":"ws","agentId":0}''\<close>

definition cfg_text_seven :: string where
  \<open>cfg_text_seven = ''{"name":"a","workspacePath":"ws","agentId":7}''\<close>

definition cfg_text_eight :: string where
  \<open>cfg_text_eight = ''{"name":"a","workspacePath":"ws","agentId":8}''\<close>

definition cfg_of :: "int \<Rightarrow> jsval" where
  "cfg_of n = JObj [(''name'', JStr ''a''), (''workspacePath'', JStr ''ws''), (''agentId'', JNum n)]"

definition B_ex :: builtins where
  "B_ex =
     \<lparr>JSON_stringify = json_stringify,
      JSON_stringify_indent = json_text,
      JSON_parse = (\<lambda>s. if s = cfg_text_zero then Inr (cfg_of 0)
                        else if s = cfg_text_seven then Inr (cfg_of 7)
                        else if s = cfg_text_eight then Inr (cfg_of 8)
                        else Inl SyntaxError),
      decodeURIComponent = (\<lambda>s. Inl URIError),
      BigInt = (\<lambda>v. case v of JNum n \<Rightarrow> Inr n | _ \<Rightarrow> Inl TypeError)\<rparr>"

definition snap_full :: snapshot where
  "snap_full =
     \<lparr>entries =
        [(''SOUL.md'', \<lparr>hash = Some (keccak256 [1]), size_e = 1, exists_e = True, path = ''ws/SOUL.md''\<rparr>),
         (''USER.md'', \<lparr>hash = Some (keccak256 [2]), size_e = 1, exists_e = True, path = ''ws/USER.md''\<rparr>),
         (''IDENTITY.md'', \<lparr>hash = Some (keccak256 []), size_e = 0, exists_e = True,
                             path = ''ws/IDENTITY.md''\<rparr>)],
      s_composite =
        \<lparr>c_hash = keccak256 (Buffer_from (keccak256 [1] @ keccak256 [2] @ keccak256 [])),
         c_files = [''SOUL.md'', ''USER.md'', ''IDENTITY.md'']\<rparr>\<rparr>"

definition reg_current :: jsval where
  "reg_current =
     JObj [(''name'', JStr ''a''),
           (''identityFiles'', identityFiles_of ''2026-01-01T00:00:00.000Z'' snap_full)]"

definition reg_stale :: jsval where
  "reg_stale =
     JObj [(''name'', JStr ''a''),
           (''identityFiles'',
              JObj [(''SOUL.md'', JStr (keccak256 [1])),
                    (''USER.md'', JStr (keccak256 [2])),
                    (''IDENTITY.md'', JStr (keccak256 [])),
                    (''_composite'', JStr ''0x00''),
                    (''_algorithm'', JStr ''keccak256''),
                    (''_hashDate'', JStr ''2026-01-01T00:00:00.000Z'')])]"

definition reg_empty :: jsval where
  "reg_empty = JObj [(''name'', JStr ''a''), (''identityFiles'', JObj [])]"

definition fs_ex :: fs where
  "fs_ex p =
     (if p = ''zero.json'' then Inr (Buffer_from cfg_text_zero)
      else if p = ''seven.json'' then Inr (Buffer_from cfg_text_seven)
      else if p = ''eight.json'' then Inr (Buffer_from cfg_text_eight)
      else fs_full p)"

definition chain_ex :: chain where
  "chain_ex =
     \<lparr>ownerOf = (\<lambda>t. if t = 5 \<or> t = 6 \<or> t = 7 \<or> t = 8
                       then Inr ''0x00000000000000000000000000000000000000aa''
                       else if t = 11 then Inl NetworkError
                       else Inl ContractError),
      tokenURI = (\<lambda>t. if t = 5 then Inr []
                        else if t = 6 then Inr ''https://example.org/empty.json''
                        else if t = 7 then Inr ''https://example.org/current.json''
                        else if t = 8 then Inr ''https://example.org/stale.json''
                        else if t = 11 then Inl NetworkError
                        else Inl ContractError),
      getAgentWallet = (\<lambda>t. Inl ContractError)\<rparr>"

definition fetch_ex :: fetcher where
  "fetch_ex url =
     (if url = ''https://example.org/current.json'' then Inr \<lparr>ok = True, json = Inr reg_current\<rparr>
      else if url = ''https://example.org/stale.json'' then Inr \<lparr>ok = True, json = Inr reg_stale\<rparr>
      else if url = ''https://example.org/empty.json'' then Inr \<lparr>ok = True, json = Inr reg_empty\<rparr>
      else Inl FetchError)"

definition W_ex :: world where
  "W_ex = \<lparr>w_fs = fs_ex, w_write = (\<lambda>p c. None), w_chain = chain_ex, w_fetch = fetch_ex,
           w_now = ''2026-01-02T00:00:00.000Z''\<rparr>"

definition update_opts_ex :: "string \<Rightarrow> update_opts" where
  "update_opts_ex p =
     \<lparr>u_config = JStr p, u_dryRun = True, u_sign = False, u_output = JNull, u_ipfs = False,
      u_verbose = False\<rparr>"


section \<open>Basic facts\<close>

lemma strict_eq_JStr [simp]: "strict_eq v (JStr s) \<longleftrightarrow> v = JStr s"
  by (cases v) auto

lemma strict_eq_JStr_left [simp]: "strict_eq (JStr s) v \<longleftrightarrow> v = JStr s"
  by (cases v) auto

lemma strict_eq_js_of_hash [simp]: "strict_eq (js_of_hash h) v \<longleftrightarrow> v = js_of_hash h"
  by (cases h; cases v) auto

lemma keccak256_not_empty [simp]: "keccak256 c \<noteq> []"
  by (simp add: keccak256_def)

lemma err_code_ENOENT: "err_code err = JStr c \<longleftrightarrow> err = SystemError c"
  by (cases err) auto

section \<open>The digest has 32 bytes\<close>

lemma length_xor_lanes [simp]: "length (xor_lanes xs ys) = min (length xs) (length ys)"
  by (induction xs ys rule: xor_lanes.induct) auto

lemma length_theta_c [simp]: "length (theta_c a) = 5"
  by (induction a rule: theta_c.induct) auto

lemma length_theta_d: "length c = 5 \<Longrightarrow> length (theta_d c) = 5"
  by (auto simp: eval_nat_numeral length_Suc_conv)

lemma length_theta: "length a = 25 \<Longrightarrow> length (theta a) = 25"
  by (simp add: theta_def rep5_def length_theta_d)

lemma length_rho_pi: "length a = 25 \<Longrightarrow> length (rho_pi a) = 25"
  by (auto simp: eval_nat_numeral length_Suc_conv)

lemma length_chi: "length (chi b) = 5 * (length b div 5)"
proof (induction b rule: chi.induct)
  case (1 b0 b1 b2 b3 b4 rest)
  have "(5 + length rest) div 5 = Suc (length rest div 5)" by presburger
  with 1 show ?case by simp
qed simp_all

lemma length_iota [simp]: "length (iota rc a) = length a"
  by (cases a) auto

lemma length_keccak_round: "length a = 25 \<Longrightarrow> length (keccak_round a rc) = 25"
  by (simp add: keccak_round_def length_chi length_rho_pi length_theta)

lemma length_foldl_round: "length a = 25 \<Longrightarrow> length (foldl keccak_round a rcs) = 25"
  by (induction rcs arbitrary: a) (auto simp: length_keccak_round)

lemma length_keccak_f: "length a = 25 \<Longrightarrow> length (keccak_f a) = 25"
  by (simp add: keccak_f_def length_foldl_round)

lemma length_xor_block [simp]: "length (xor_block st bl) = length st"
  by (induction st bl rule: xor_block.induct) auto

lemma length_absorb: "length st = 25 \<Longrightarrow> length (absorb n st bs) = 25"
  by (induction n arbitrary: st bs) (auto simp: length_keccak_f)

lemma length_bytes_of_lane [simp]: "length (bytes_of_lane n x) = n"
  by (induction n arbitrary: x) auto

lemma length_concat_const:
  "\<forall>x \<in> set xss. length x = k \<Longrightarrow> length (concat xss) = k * length xss"
  by (induction xss) auto

lemma length_squeeze256: "length st = 25 \<Longrightarrow> length (squeeze256 st) = 32"
  by (simp add: squeeze256_def length_concat_const [where k = 8])

lemma length_sponge256 [simp]: "length (sponge256 suffix m) = 32"
  by (simp add: sponge256_def Let_def length_squeeze256 length_absorb)

lemma length_hex [simp]: "length (hex bs) = 2 * length bs"
  by (induction bs) (auto simp: hex_def hex_of_byte_def)

lemma length_keccak256 [simp]: "length (keccak256 m) = 66"
  by (simp add: keccak256_def sha3_256_def)
section \<open>Facts about the examples\<close>

lemma unat_of_char [simp]: "unat (of_char c :: byte) = of_char c"
proof -
  have "(of_char c :: byte) = of_nat (of_char c)" by (simp only: of_nat_of_char)
  moreover have "(of_char c :: nat) < 256" by simp
  ultimately show ?thesis by (simp only: unat_of_nat) simp
qed

lemma utf8_scrub_ascii: "\<forall>b \<in> set bs. b < 128 \<Longrightarrow> utf8_scrub bs = bs"
  by (induction bs) auto

lemma Buffer_toString_from_ascii:
  "\<forall>c \<in> set s. (of_char c :: nat) < 128 \<Longrightarrow> Buffer_toString (Buffer_from s) = s"
  by (simp add: Buffer_toString_def Buffer_from_def utf8_scrub_ascii comp_def)

lemma fs_full_snapshot: "hashIdentityFiles fs_full (JStr ''ws'') = Inr snap_full"
  by (simp add: hashIdentityFiles_def IDENTITY_FILES_def fs_full_def hash_or_zero_def snap_full_def)

lemma fs_ex_snapshot: "hashIdentityFiles fs_ex (JStr ''ws'') = Inr snap_full"
  by (simp add: hashIdentityFiles_def IDENTITY_FILES_def fs_ex_def fs_full_def hash_or_zero_def snap_full_def)

lemma load_config_ex:
  "load_config B_ex fs_ex (JStr ''zero.json'') = Inr (cfg_of 0, snap_full)"
  "load_config B_ex fs_ex (JStr ''seven.json'') = Inr (cfg_of 7, snap_full)"
  "load_config B_ex fs_ex (JStr ''eight.json'') = Inr (cfg_of 8, snap_full)"
proof -
  have a: "Buffer_toString (Buffer_from cfg_text_zero) = cfg_text_zero"
    "Buffer_toString (Buffer_from cfg_text_seven) = cfg_text_seven"
    "Buffer_toString (Buffer_from cfg_text_eight) = cfg_text_eight"
    by (rule Buffer_toString_from_ascii, simp add: cfg_text_zero_def cfg_text_seven_def cfg_text_eight_def)+
  have p: "JSON_parse B_ex cfg_text_zero = Inr (cfg_of 0)"
    "JSON_parse B_ex cfg_text_seven = Inr (cfg_of 7)"
    "JSON_parse B_ex cfg_text_eight = Inr (cfg_of 8)"
    by (simp_all add: B_ex_def cfg_text_zero_def cfg_text_seven_def cfg_text_eight_def)
  have w: "get_prop_opt (cfg_of n) ''workspacePath'' = JStr ''ws''" for n
    by (simp add: cfg_of_def)
  have n: "get_prop (cfg_of n) ''name'' = Inr (JStr ''a'')" for n
    by (simp add: cfg_of_def)
  show "load_config B_ex fs_ex (JStr ''zero.json'') = Inr (cfg_of 0, snap_full)"
    by (simp add: load_config_def read_json_def fs_ex_def a p w n fs_ex_snapshot)
  show "load_config B_ex fs_ex (JStr ''seven.json'') = Inr (cfg_of 7, snap_full)"
    by (simp add: load_config_def read_json_def fs_ex_def a p w n fs_ex_snapshot)
  show "load_config B_ex fs_ex (JStr ''eight.json'') = Inr (cfg_of 8, snap_full)"
    by (simp add: load_config_def read_json_def fs_ex_def a p w n fs_ex_snapshot)
qed

section \<open>Hashing engine: proofs\<close>

lemma hash_files_ok:
  "\<forall>f \<in> set fl. \<not> fatal_read (fs (w @ ''/'' @ f)) \<Longrightarrow>
   hash_files fs (JStr w) fl = Inr (map (\<lambda>f. (f, entry_of_read w f (fs (w @ ''/'' @ f)))) fl)"
  by (induction fl) (auto simp: fatal_read_def entry_of_read_def present_entry_def missing_entry_def split: sum.splits)

lemma hash_files_fatal:
  "\<exists>f \<in> set fl. fatal_read (fs (w @ ''/'' @ f)) \<Longrightarrow>
   \<exists>f \<in> set fl. \<exists>err. fs (w @ ''/'' @ f) = Inl err \<and> err_code err \<noteq> JStr ''ENOENT'' \<and> hash_files fs (JStr w) fl = Inl err"
proof (induction fl)
  case Nil
  then show ?case by simp
next
  case (Cons f fl)
  show ?case
  proof (cases "fatal_read (fs (w @ ''/'' @ f))")
    case True
    then show ?thesis by (auto simp: fatal_read_def split: sum.splits)
  next
    case False
    with Cons.prems have "\<exists>f \<in> set fl. fatal_read (fs (w @ ''/'' @ f))" by auto
    from Cons.IH [OF this] obtain g err where
      g: "g \<in> set fl" "fs (w @ ''/'' @ g) = Inl err" "err_code err \<noteq> JStr ''ENOENT''"
         "hash_files fs (JStr w) fl = Inl err" by blast
    with False show ?thesis
      by (auto simp: fatal_read_def split: sum.splits intro!: bexI [of _ g])
  qed
qed

text \<open>
  Claim C7. \<^verbatim>\<open>hashIdentityFiles\<close> tells absence from every other read failure. If the read of
  one of the three documents fails for a reason other than \<^verbatim>\<open>ENOENT\<close>, the whole call fails
  with the error of such a read. If every failing read fails with \<^verbatim>\<open>ENOENT\<close>, the call
  returns, and each document has the entry of a document that was read (its hash, its size,
  \<open>exists = True\<close>) exactly when its read succeeded, and otherwise the entry of a missing
  document (\<open>hash = null\<close>, \<open>exists = False\<close>).
\<close>

theorem C7_absence_is_not_read_failure:
  "((\<exists>f \<in> set IDENTITY_FILES. \<exists>err. fs (w @ ''/'' @ f) = Inl err \<and> err_code err \<noteq> JStr ''ENOENT'') \<longrightarrow>
      (\<exists>f \<in> set IDENTITY_FILES. \<exists>err. fs (w @ ''/'' @ f) = Inl err \<and> err_code err \<noteq> JStr ''ENOENT'' \<and>
          hashIdentityFiles fs (JStr w) = Inl err)) \<and>
   ((\<forall>f \<in> set IDENTITY_FILES. \<forall>err. fs (w @ ''/'' @ f) = Inl err \<longrightarrow> err_code err = JStr ''ENOENT'') \<longrightarrow>
      (\<exists>snap. hashIdentityFiles fs (JStr w) = Inr snap \<and>
         (\<forall>f \<in> set IDENTITY_FILES.
            map_of (entries snap) f =
              Some (case fs (w @ ''/'' @ f) of
                      Inr content \<Rightarrow> \<lparr>hash = Some (keccak256 content), size_e = length content,
                                      exists_e = True, path = w @ ''/'' @ f\<rparr>
                    | Inl err \<Rightarrow> \<lparr>hash = None, size_e = 0, exists_e = False, path = w @ ''/'' @ f\<rparr>))))"
proof (intro conjI impI)
  assume "\<exists>f \<in> set IDENTITY_FILES. \<exists>err. fs (w @ ''/'' @ f) = Inl err \<and> err_code err \<noteq> JStr ''ENOENT''"
  then obtain f err where "f \<in> set IDENTITY_FILES" "fs (w @ ''/'' @ f) = Inl err"
      "err_code err \<noteq> JStr ''ENOENT''" by blast
  then have "\<exists>f \<in> set IDENTITY_FILES. fatal_read (fs (w @ ''/'' @ f))"
    by (intro bexI [of _ f]) (simp_all add: fatal_read_def)
  from hash_files_fatal [OF this]
  show "\<exists>f \<in> set IDENTITY_FILES. \<exists>err. fs (w @ ''/'' @ f) = Inl err \<and> err_code err \<noteq> JStr ''ENOENT'' \<and>
          hashIdentityFiles fs (JStr w) = Inl err"
    by (auto simp: hashIdentityFiles_def)
next
  assume "\<forall>f \<in> set IDENTITY_FILES. \<forall>err. fs (w @ ''/'' @ f) = Inl err \<longrightarrow> err_code err = JStr ''ENOENT''"
  then have "\<forall>f \<in> set IDENTITY_FILES. \<not> fatal_read (fs (w @ ''/'' @ f))"
    by (auto simp: fatal_read_def split: sum.splits)
  from hash_files_ok [OF this]
  show "\<exists>snap. hashIdentityFiles fs (JStr w) = Inr snap \<and>
         (\<forall>f \<in> set IDENTITY_FILES.
            map_of (entries snap) f =
              Some (case fs (w @ ''/'' @ f) of
                      Inr content \<Rightarrow> \<lparr>hash = Some (keccak256 content), size_e = length content,
                                      exists_e = True, path = w @ ''/'' @ f\<rparr>
                    | Inl err \<Rightarrow> \<lparr>hash = None, size_e = 0, exists_e = False, path = w @ ''/'' @ f\<rparr>))"
    by (simp add: hashIdentityFiles_def IDENTITY_FILES_def entry_of_read_def present_entry_def
        missing_entry_def split: sum.splits)
qed

text \<open>An unreadable USER.md fails the call; a workspace without documents does not.\<close>

theorem C7_witness:
  "hashIdentityFiles fs_denied (JStr ''ws'') = Inl (SystemError ''EACCES'') \<and>
   (\<exists>snap. hashIdentityFiles fs_absent (JStr ''ws'') = Inr snap \<and>
      map_of (entries snap) ''SOUL.md'' =
        Some \<lparr>hash = None, size_e = 0, exists_e = False, path = ''ws/SOUL.md''\<rparr>)"
proof
  have "\<exists>f \<in> set IDENTITY_FILES. \<exists>err. fs_denied (''ws'' @ ''/'' @ f) = Inl err \<and> err_code err \<noteq> JStr ''ENOENT''"
    by (simp add: IDENTITY_FILES_def fs_denied_def)
  with C7_absence_is_not_read_failure [of fs_denied "''ws''"]
  show "hashIdentityFiles fs_denied (JStr ''ws'') = Inl (SystemError ''EACCES'')"
    by (auto simp: IDENTITY_FILES_def fs_denied_def split: if_splits)
next
  have "\<forall>f \<in> set IDENTITY_FILES. \<forall>err. fs_absent (''ws'' @ ''/'' @ f) = Inl err \<longrightarrow> err_code err = JStr ''ENOENT''"
    by (simp add: fs_absent_def)
  with C7_absence_is_not_read_failure [of fs_absent "''ws''"]
  show "\<exists>snap. hashIdentityFiles fs_absent (JStr ''ws'') = Inr snap \<and>
      map_of (entries snap) ''SOUL.md'' =
        Some \<lparr>hash = None, size_e = 0, exists_e = False, path = ''ws/SOUL.md''\<rparr>"
    by (auto simp: IDENTITY_FILES_def fs_absent_def)
qed

lemma hash_files_Inr_D:
  "hash_files fs (JStr w) fl = Inr res \<Longrightarrow>
   res = map (\<lambda>f. (f, entry_of_read w f (fs (w @ ''/'' @ f)))) fl"
  by (induction fl arbitrary: res)
     (auto simp: entry_of_read_def present_entry_def missing_entry_def split: sum.splits if_splits)

lemma hash_files_not_string: "hash_files fs w fl = Inr res \<Longrightarrow> fl \<noteq> [] \<Longrightarrow> \<exists>s. w = JStr s"
  by (cases fl; cases w) auto



section \<open>Verification: proofs\<close>

lemma verify_files_spec:
  assumes "\<forall>f \<in> set fl. map_of (entries snap) f \<noteq> None"
    and "expectedHashes \<noteq> JUndefined" "expectedHashes \<noteq> JNull"
  shows "verify_files snap expectedHashes fl r =
     Inr (r\<lparr>files := files r @ map (\<lambda>f. (f, classify (the (map_of (entries snap) f)) (get_prop_opt expectedHashes f))) fl,
           verified := verified r \<and> (\<forall>f \<in> set fl. passes (classify (the (map_of (entries snap) f)) (get_prop_opt expectedHashes f)))\<rparr>)"
  using assms
proof (induction fl arbitrary: r)
  case Nil
  then show ?case by simp
next
  case (Cons f fl)
  from Cons.prems obtain loc where loc: "map_of (entries snap) f = Some loc" by auto
  have gp: "get_prop expectedHashes f = Inr (get_prop_opt expectedHashes f)"
    using Cons.prems(2,3) by (cases expectedHashes) auto
  have IH: "\<And>r. verify_files snap expectedHashes fl r =
     Inr (r\<lparr>files := files r @ map (\<lambda>f. (f, classify (the (map_of (entries snap) f)) (get_prop_opt expectedHashes f))) fl,
           verified := verified r \<and> (\<forall>f \<in> set fl. passes (classify (the (map_of (entries snap) f)) (get_prop_opt expectedHashes f)))\<rparr>)"
    using Cons.IH Cons.prems by simp
  show ?case
    by (simp add: loc gp IH classify_def passes_def eq_commute [of "js_of_hash (hash loc)"])
qed

lemma hashIdentityFiles_entries:
  assumes "hashIdentityFiles fs w = Inr snap" "f \<in> set IDENTITY_FILES"
  shows "\<exists>s. w = JStr s \<and> map_of (entries snap) f = Some (entry_of_read s f (fs (s @ ''/'' @ f)))"
proof -
  from assms(1) obtain res where res: "hash_files fs w IDENTITY_FILES = Inr res" and e: "entries snap = res"
    by (auto simp: hashIdentityFiles_def split: sum.splits)
  from hash_files_not_string [OF res] obtain s where s: "w = JStr s"
    by (auto simp: IDENTITY_FILES_def)
  from hash_files_Inr_D [OF res [unfolded s]] assms(2) e s show ?thesis
    by (auto simp: IDENTITY_FILES_def)
qed

lemma entry_of_read_hash:
  "exists_e (entry_of_read s f r) \<Longrightarrow> \<exists>c. hash (entry_of_read s f r) = Some (keccak256 c)"
  by (auto simp: entry_of_read_def present_entry_def missing_entry_def split: sum.splits)

lemma map_of_classified:
  "f \<in> set fl \<Longrightarrow> map_of (map (\<lambda>f. (f, g f)) fl) f = Some (g f)"
  by (induction fl) auto

lemma verifyIdentityFiles_eq:
  assumes h: "hashIdentityFiles fs w = Inr snap"
    and ne: "expectedHashes \<noteq> JUndefined" "expectedHashes \<noteq> JNull"
  shows "verifyIdentityFiles fs now w expectedHashes =
     verify_composite snap expectedHashes
       \<lparr>verified = (\<forall>f \<in> set IDENTITY_FILES. passes (classify (the (map_of (entries snap) f)) (get_prop_opt expectedHashes f))),
        files = map (\<lambda>f. (f, classify (the (map_of (entries snap) f)) (get_prop_opt expectedHashes f))) IDENTITY_FILES,
        composite = None, timestamp = now\<rparr>"
proof -
  have "\<forall>f \<in> set IDENTITY_FILES. map_of (entries snap) f \<noteq> None"
  proof
    fix f assume "f \<in> set IDENTITY_FILES"
    from hashIdentityFiles_entries [OF h this] show "map_of (entries snap) f \<noteq> None" by auto
  qed
  from verify_files_spec [OF this ne] show ?thesis
    by (simp add: verifyIdentityFiles_def h)
qed

text \<open>
  Claim C3. When the local snapshot can be computed and \<^verbatim>\<open>expectedHashes\<close> is a value that
  can be indexed, \<^verbatim>\<open>verifyIdentityFiles\<close> returns a result in which each of the three
  documents is MISSING exactly when it is absent locally, NO_CHAIN_HASH exactly when it exists
  and its expected hash is absent (falsy), VERIFIED exactly when it exists and its hash equals
  the expected hash, MISMATCH exactly when it exists, an expected hash is present and the two
  differ; the composite is checked exactly when an expected composite is supplied; and
  \<open>verified\<close> holds if and only if every document is VERIFIED or NO_CHAIN_HASH and the
  composite, when checked, is VERIFIED.
\<close>

theorem C3_verify_classification:
  assumes "hashIdentityFiles fs w = Inr snap"
    and "expectedHashes \<noteq> JUndefined" and "expectedHashes \<noteq> JNull"
  shows "\<exists>r. verifyIdentityFiles fs now w expectedHashes = Inr r \<and>
     (\<forall>f \<in> set IDENTITY_FILES. \<exists>loc v.
         map_of (entries snap) f = Some loc \<and> map_of (files r) f = Some v \<and>
         (status_of v = MISSING \<longleftrightarrow> \<not> exists_e loc) \<and>
         (status_of v = NO_CHAIN_HASH \<longleftrightarrow> exists_e loc \<and> \<not> truthy (get_prop_opt expectedHashes f)) \<and>
         (status_of v = VERIFIED \<longleftrightarrow> exists_e loc \<and> get_prop_opt expectedHashes f = js_of_hash (hash loc)) \<and>
         (status_of v = MISMATCH \<longleftrightarrow>
            exists_e loc \<and> truthy (get_prop_opt expectedHashes f) \<and>
            get_prop_opt expectedHashes f \<noteq> js_of_hash (hash loc))) \<and>
     (composite r = None \<longleftrightarrow> \<not> truthy (get_prop_opt expectedHashes ''_composite'')) \<and>
     (\<forall>v. composite r = Some v \<longrightarrow>
         (status_of v = VERIFIED \<longleftrightarrow>
            get_prop_opt expectedHashes ''_composite'' = JStr (c_hash (s_composite snap))) \<and>
         (status_of v = MISMATCH \<longleftrightarrow>
            get_prop_opt expectedHashes ''_composite'' \<noteq> JStr (c_hash (s_composite snap)))) \<and>
     (verified r \<longleftrightarrow>
        (\<forall>f \<in> set IDENTITY_FILES. \<exists>v. map_of (files r) f = Some v \<and>
            (status_of v = VERIFIED \<or> status_of v = NO_CHAIN_HASH)) \<and>
        (\<forall>v. composite r = Some v \<longrightarrow> status_of v = VERIFIED))"
proof -
  let ?cl = "\<lambda>f. classify (the (map_of (entries snap) f)) (get_prop_opt expectedHashes f)"
  let ?r0 = "\<lparr>verified = (\<forall>f \<in> set IDENTITY_FILES. passes (?cl f)),
        files = map (\<lambda>f. (f, ?cl f)) IDENTITY_FILES, composite = None, timestamp = now\<rparr>"
  have eq: "verifyIdentityFiles fs now w expectedHashes = verify_composite snap expectedHashes ?r0"
    by (rule verifyIdentityFiles_eq [OF assms])
  have gp: "get_prop expectedHashes k = Inr (get_prop_opt expectedHashes k)" for k
    using assms(2,3) by (cases expectedHashes) auto
  let ?ec = "get_prop_opt expectedHashes ''_composite''"
  let ?lc = "c_hash (s_composite snap)"
  define r where "r =
     (if truthy ?ec then
        (if ?ec = JStr ?lc then ?r0\<lparr>composite := Some (Verified (Some ?lc))\<rparr>
         else ?r0\<lparr>composite := Some (Mismatch ?ec (Some ?lc)), verified := False\<rparr>)
      else ?r0)"
  have r: "verify_composite snap expectedHashes ?r0 = Inr r"
    by (simp add: verify_composite_def gp r_def)
  have files_r: "files r = map (\<lambda>f. (f, ?cl f)) IDENTITY_FILES"
    by (simp add: r_def)
  have comp_r: "composite r =
        (if truthy (get_prop_opt expectedHashes ''_composite'')
         then Some (if get_prop_opt expectedHashes ''_composite'' = JStr (c_hash (s_composite snap))
                    then Verified (Some (c_hash (s_composite snap)))
                    else Mismatch (get_prop_opt expectedHashes ''_composite'') (Some (c_hash (s_composite snap))))
         else None)"
    by (simp add: r_def)
  have ver_r: "verified r \<longleftrightarrow> (\<forall>f \<in> set IDENTITY_FILES. passes (?cl f)) \<and>
        (truthy (get_prop_opt expectedHashes ''_composite'') \<longrightarrow>
           get_prop_opt expectedHashes ''_composite'' = JStr (c_hash (s_composite snap)))"
    by (simp add: r_def)
  have per_file: "\<exists>loc v.
         map_of (entries snap) f = Some loc \<and> map_of (files r) f = Some v \<and>
         (status_of v = MISSING \<longleftrightarrow> \<not> exists_e loc) \<and>
         (status_of v = NO_CHAIN_HASH \<longleftrightarrow> exists_e loc \<and> \<not> truthy (get_prop_opt expectedHashes f)) \<and>
         (status_of v = VERIFIED \<longleftrightarrow> exists_e loc \<and> get_prop_opt expectedHashes f = js_of_hash (hash loc)) \<and>
         (status_of v = MISMATCH \<longleftrightarrow>
            exists_e loc \<and> truthy (get_prop_opt expectedHashes f) \<and>
            get_prop_opt expectedHashes f \<noteq> js_of_hash (hash loc))"
    if f: "f \<in> set IDENTITY_FILES" for f
  proof -
    from hashIdentityFiles_entries [OF assms(1) f] obtain s where
      loc: "map_of (entries snap) f = Some (entry_of_read s f (fs (s @ ''/'' @ f)))" by blast
    let ?loc = "entry_of_read s f (fs (s @ ''/'' @ f))"
    have tr: "truthy (js_of_hash (hash ?loc))" if "exists_e ?loc"
      using entry_of_read_hash [OF that] by auto
    have v: "map_of (files r) f = Some (?cl f)"
      unfolding files_r by (rule map_of_classified [OF f])
    show ?thesis
      using tr by (intro exI [of _ ?loc] exI [of _ "?cl f"]) (auto simp: loc v classify_def)
  qed
  have all_files: "(\<forall>f \<in> set IDENTITY_FILES. passes (?cl f)) \<longleftrightarrow>
        (\<forall>f \<in> set IDENTITY_FILES. \<exists>v. map_of (files r) f = Some v \<and>
            (status_of v = VERIFIED \<or> status_of v = NO_CHAIN_HASH))"
    unfolding files_r by (simp add: map_of_classified passes_def)
  have comp_ok: "(truthy (get_prop_opt expectedHashes ''_composite'') \<longrightarrow>
           get_prop_opt expectedHashes ''_composite'' = JStr (c_hash (s_composite snap))) \<longleftrightarrow>
        (\<forall>v. composite r = Some v \<longrightarrow> status_of v = VERIFIED)"
    by (auto simp: comp_r)
  show ?thesis
    unfolding eq r
    apply (intro exI [of _ r] conjI ballI)
         apply simp
        apply (erule per_file)
       apply (simp add: comp_r)
      apply (auto simp: comp_r)[1]
     apply (simp add: ver_r all_files comp_ok)
    done
qed

text \<open>A workspace whose USER.md differs from the expected hash.\<close>

theorem C3_witness:
  "\<exists>r. verifyIdentityFiles fs_full ''2026-01-01T00:00:00.000Z'' (JStr ''ws'') exp_bad_user = Inr r \<and>
       (\<exists>v. map_of (files r) ''SOUL.md'' = Some v \<and> status_of v = VERIFIED) \<and>
       (\<exists>v. map_of (files r) ''USER.md'' = Some v \<and> status_of v = MISMATCH) \<and>
       (\<exists>v. map_of (files r) ''IDENTITY.md'' = Some v \<and> status_of v = NO_CHAIN_HASH) \<and>
       composite r = None \<and> \<not> verified r"
proof -
  have ne: "exp_bad_user \<noteq> JUndefined" "exp_bad_user \<noteq> JNull"
    by (simp_all add: exp_bad_user_def)
  have bad: "''bad'' \<noteq> keccak256 [2]"
    by (simp add: keccak256_def)
  from C3_verify_classification [OF fs_full_snapshot ne, of "''2026-01-01T00:00:00.000Z''"] bad
  show ?thesis
    apply (elim exE conjE)
    subgoal for r
      apply (rule exI [of _ r])
      apply (simp add: IDENTITY_FILES_def exp_bad_user_def snap_full_def)
      apply (elim exE conjE)
      apply auto
      done
    done
qed

lemma get_prop_opt_expected:
  "f \<in> set IDENTITY_FILES \<Longrightarrow> get_prop_opt (expected_of_snapshot snap) f = entry_hash snap f"
  "get_prop_opt (expected_of_snapshot snap) ''_composite'' = JStr (c_hash (s_composite snap))"
  by (auto simp: expected_of_snapshot_def IDENTITY_FILES_def)

text \<open>
  Claim C4, as amended. Verifying a workspace against its own fresh snapshot returns
  \<open>verified = true\<close> exactly when all three documents exist; with a document missing the
  result is \<open>verified = false\<close>, since a missing document is classified MISSING whatever is
  expected.
\<close>

theorem C4_self_verification:
  assumes "hashIdentityFiles fs (JStr w) = Inr snap"
  shows "self_check fs now (JStr w) =
           Inr (\<forall>f \<in> set IDENTITY_FILES. \<exists>content. fs (w @ ''/'' @ f) = Inr content)"
proof -
  let ?exp = "expected_of_snapshot snap"
  have ne: "?exp \<noteq> JUndefined" "?exp \<noteq> JNull"
    by (simp_all add: expected_of_snapshot_def)
  have gp: "get_prop ?exp k = Inr (get_prop_opt ?exp k)" for k
    by (simp add: expected_of_snapshot_def)
  have cl: "passes (classify (the (map_of (entries snap) f)) (get_prop_opt ?exp f))
              \<longleftrightarrow> (\<exists>content. fs (w @ ''/'' @ f) = Inr content)"
    if f: "f \<in> set IDENTITY_FILES" for f
  proof -
    from hashIdentityFiles_entries [OF assms f]
    have loc: "map_of (entries snap) f = Some (entry_of_read w f (fs (w @ ''/'' @ f)))" by simp
    show ?thesis
      by (cases "fs (w @ ''/'' @ f)")
         (simp_all add: get_prop_opt_expected(1) [OF f] entry_hash_def loc classify_def passes_def
            entry_of_read_def present_entry_def missing_entry_def)
  qed
  show ?thesis
    by (simp add: self_check_def assms verifyIdentityFiles_eq [OF assms ne] verify_composite_def gp
          get_prop_opt_expected(2) cl)
qed

text \<open>A workspace with all three documents verifies against itself.\<close>

theorem C4_witness:
  "self_check fs_full ''2026-01-01T00:00:00.000Z'' (JStr ''ws'') = Inr True"
  using C4_self_verification [OF fs_full_snapshot, of "''2026-01-01T00:00:00.000Z''"]
  by (simp add: IDENTITY_FILES_def fs_full_def)

text \<open>
  Claim C4 as stated fails: the workspace without any document does not verify against its
  own snapshot.
\<close>

theorem C4_counterexample:
  "self_check fs_absent ''2026-01-01T00:00:00.000Z'' (JStr ''ws'') = Inr False"
  by (simp add: self_check_def hashIdentityFiles_def IDENTITY_FILES_def fs_absent_def
        verifyIdentityFiles_def expected_of_snapshot_def entry_hash_def verify_composite_def)
section \<open>Registration builder and update workflow: proofs\<close>

lemma map_of_filter_key:
  "map_of (filter (\<lambda>kv. fst kv \<noteq> a) kvs) k = (if k = a then None else map_of kvs k)"
  by (induction kvs) auto

lemma get_prop_opt_filter:
  "get_prop_opt (JObj (filter (\<lambda>kv. fst kv \<noteq> a) kvs)) k =
     (if k = a then JUndefined else get_prop_opt (JObj kvs) k)"
  by (simp add: map_of_filter_key)

lemma get_prop_JObj: "get_prop (JObj kvs) k = Inr (get_prop_opt (JObj kvs) k)"
  by simp

lemma buildRegistration_registrations:
  assumes "buildRegistration fs now config = Inr reg"
  shows "get_prop_opt reg ''registrations'' =
           (if truthy (with_default (get_prop_opt config ''agentId'') JNull)
            then JArr [JObj [(''agentId'', with_default (get_prop_opt config ''agentId'') JNull),
                   (''agentRegistry'',
                      JStr (''eip155:'' @ js_to_string (with_default (get_prop_opt config ''chainId'') (JStr ''8453'')) @ '':'' @
                            js_to_string (with_default (get_prop_opt config ''identityRegistry'')
                                   (JStr ''0x8004A169FB4a3325136EB29fA0ceB6D2e539a432''))))]]
            else JArr [])"
  using assms
  by (auto simp: buildRegistration_def Let_def split: sum.splits if_splits)

lemma truthy_with_default_null [simp]: "truthy (with_default v JNull) = truthy v"
  by (cases v) (auto simp: with_default_def)

lemma buildRegistration_omit_agentId:
  assumes "\<not> truthy (get_prop_opt (JObj kvs) ''agentId'')"
  shows "buildRegistration fs now (JObj kvs) =
         buildRegistration fs now (JObj (filter (\<lambda>kv. fst kv \<noteq> ''agentId'') kvs))"
proof -
  have t: "\<not> truthy (with_default (get_prop_opt (JObj kvs) ''agentId'') JNull)"
    using assms by simp
  have t': "\<not> truthy (with_default JUndefined JNull)" by simp
  show ?thesis
    unfolding buildRegistration_def get_prop_JObj get_prop_opt_filter Let_def
    using t t' by (simp del: get_prop_opt.simps truthy_with_default_null)
qed

lemma build_tx_kind:
  assumes "build_tx B W config = Inr (reg, tx)"
  shows "buildRegistration (w_fs W) (w_now W) config = Inr reg \<and>
         (\<exists>uri. toBase64DataURI B reg = Inr uri \<and>
            (if truthy (get_prop_opt config ''agentId'')
             then buildUpdateURITx B (get_prop_opt config ''agentId'') uri = Inr tx
             else tx = buildRegisterTx uri))"
  using assms by (auto simp: build_tx_def split: sum.splits if_splits)

lemma buildUpdateURITx_data:
  "buildUpdateURITx B a uri = Inr tx \<Longrightarrow> \<exists>t. tx_data tx = Call_setAgentURI t uri"
  by (auto simp: buildUpdateURITx_def split: sum.splits if_splits)

lemma check_chain_falsy:
  "\<not> truthy (get_prop_opt config ''agentId'') \<Longrightarrow> check_chain B W config newHashes = Continue [] NoAgentId"
  by (simp add: check_chain_def)

lemma build_tx_world:
  "build_tx B (W\<lparr>w_chain := ch, w_fetch := fe\<rparr>) config = build_tx B W config"
  by (simp add: build_tx_def)

lemma finish_world:
  "finish B (W\<lparr>w_chain := ch, w_fetch := fe\<rparr>) opts reg nh = finish B W opts reg nh"
  by (simp add: finish_def split: option.splits)

lemma update_main_falsy:
  assumes "truthy (u_config opts)"
    and "load_config B (w_fs W) (u_config opts) = Inr (config, newHashes)"
    and "\<not> truthy (get_prop_opt config ''agentId'')"
  shows "update_main B W opts =
     (case build_tx B W config of
        Inl e \<Rightarrow> \<lparr>exit_code = 3, built_tx = None, changes = [], reports = [NoAgentId, ErrorExit]\<rparr>
      | Inr (registration, tx) \<Rightarrow>
          \<lparr>exit_code = finish B W opts registration newHashes, built_tx = Some tx, changes = [],
           reports = [NoAgentId, TxRegister]\<rparr>)"
  using assms by (simp add: update_main_def check_chain_falsy split: sum.splits prod.splits)

text \<open>
  Claim C10. An agent identifier equal to the number 0 is treated as not registered:
  \<^verbatim>\<open>buildRegistration\<close> produces an empty \<open>registrations\<close> list, the same document as for a
  configuration without \<open>agentId\<close>; the update workflow does not consult the chain (its run
  is the same for every chain and network), finds no changes, and the transaction it builds is
  a register transaction. Only a truthy agent identifier gives a non-empty \<open>registrations\<close>
  list and an update-URI transaction.
\<close>

theorem C10_agent_id_zero_is_unregistered:
  "(get_prop_opt config ''agentId'' = JNum 0 \<longrightarrow>
      (\<forall>reg. buildRegistration fs now config = Inr reg \<longrightarrow> get_prop_opt reg ''registrations'' = JArr []) \<and>
      (\<forall>kvs. config = JObj kvs \<longrightarrow>
         buildRegistration fs now config =
           buildRegistration fs now (JObj (filter (\<lambda>kv. fst kv \<noteq> ''agentId'') kvs))) \<and>
      (truthy (u_config opts) \<and> load_config B (w_fs W) (u_config opts) = Inr (config, newHashes) \<longrightarrow>
         update_main B W opts = update_main B (W\<lparr>w_chain := ch, w_fetch := fe\<rparr>) opts \<and>
         changes (update_main B W opts) = [] \<and>
         hd (reports (update_main B W opts)) = NoAgentId \<and>
         (\<forall>tx. built_tx (update_main B W opts) = Some tx \<longrightarrow> (\<exists>uri. tx = buildRegisterTx uri)) \<and>
         (\<forall>reg uri. buildRegistration (w_fs W) (w_now W) config = Inr reg \<and> toBase64DataURI B reg = Inr uri \<longrightarrow>
            built_tx (update_main B W opts) = Some (buildRegisterTx uri)))) \<and>
   (\<forall>reg. buildRegistration fs now config = Inr reg \<longrightarrow>
      (get_prop_opt reg ''registrations'' \<noteq> JArr [] \<longleftrightarrow> truthy (get_prop_opt config ''agentId''))) \<and>
   (\<forall>reg tx. build_tx B W config = Inr (reg, tx) \<longrightarrow>
      ((\<exists>t uri. tx_data tx = Call_setAgentURI t uri) \<longleftrightarrow> truthy (get_prop_opt config ''agentId'')))"
proof (intro conjI impI allI)
  fix reg assume "get_prop_opt config ''agentId'' = JNum 0" "buildRegistration fs now config = Inr reg"
  then show "get_prop_opt reg ''registrations'' = JArr []"
    using buildRegistration_registrations [of fs now config reg] by simp
next
  fix kvs assume "get_prop_opt config ''agentId'' = JNum 0" "config = JObj kvs"
  then show "buildRegistration fs now config =
           buildRegistration fs now (JObj (filter (\<lambda>kv. fst kv \<noteq> ''agentId'') kvs))"
    using buildRegistration_omit_agentId [of kvs fs now] by simp
next
  assume z: "get_prop_opt config ''agentId'' = JNum 0"
    and l: "truthy (u_config opts) \<and> load_config B (w_fs W) (u_config opts) = Inr (config, newHashes)"
  have f: "\<not> truthy (get_prop_opt config ''agentId'')" using z by simp
  note um = update_main_falsy [OF conjunct1 [OF l] conjunct2 [OF l] f]
  have l': "load_config B (w_fs (W\<lparr>w_chain := ch, w_fetch := fe\<rparr>)) (u_config opts) = Inr (config, newHashes)"
    using l by simp
  note um' = update_main_falsy [OF conjunct1 [OF l] l' f]
  show "update_main B W opts = update_main B (W\<lparr>w_chain := ch, w_fetch := fe\<rparr>) opts"
    unfolding um um' by (simp add: build_tx_world finish_world split: sum.splits prod.splits)
  show "changes (update_main B W opts) = []"
    unfolding um by (simp split: sum.splits prod.splits)
  show "hd (reports (update_main B W opts)) = NoAgentId"
    unfolding um by (simp split: sum.splits prod.splits)
  show "\<exists>uri. tx = buildRegisterTx uri" if "built_tx (update_main B W opts) = Some tx" for tx
    using that f unfolding um
    by (auto split: sum.splits prod.splits dest!: build_tx_kind)
  show "built_tx (update_main B W opts) = Some (buildRegisterTx uri)"
    if "buildRegistration (w_fs W) (w_now W) config = Inr reg \<and> toBase64DataURI B reg = Inr uri" for reg uri
    using that f unfolding um by (simp add: build_tx_def)
next
  fix reg assume "buildRegistration fs now config = Inr reg"
  from buildRegistration_registrations [OF this]
  show "get_prop_opt reg ''registrations'' \<noteq> JArr [] \<longleftrightarrow> truthy (get_prop_opt config ''agentId'')"
    by simp
next
  fix reg tx assume "build_tx B W config = Inr (reg, tx)"
  from build_tx_kind [OF this] obtain uri where
    k: "if truthy (get_prop_opt config ''agentId'')
        then buildUpdateURITx B (get_prop_opt config ''agentId'') uri = Inr tx
        else tx = buildRegisterTx uri" by blast
  show "(\<exists>t uri. tx_data tx = Call_setAgentURI t uri) \<longleftrightarrow> truthy (get_prop_opt config ''agentId'')"
  proof (cases "truthy (get_prop_opt config ''agentId'')")
    case True
    with k have "buildUpdateURITx B (get_prop_opt config ''agentId'') uri = Inr tx" by simp
    from buildUpdateURITx_data [OF this] True show ?thesis by blast
  next
    case False
    with k show ?thesis by (simp add: buildRegisterTx_def)
  qed
qed

text \<open>The configuration with \<open>agentId = 0\<close> over the full workspace.\<close>

theorem C10_witness:
  "(\<exists>reg. buildRegistration fs_ex ''2026-01-02T00:00:00.000Z'' (cfg_of 0) = Inr reg \<and>
       get_prop_opt reg ''registrations'' = JArr []) \<and>
   changes (update_main B_ex W_ex (update_opts_ex ''zero.json'')) = [] \<and>
   hd (reports (update_main B_ex W_ex (update_opts_ex ''zero.json''))) = NoAgentId \<and>
   (\<exists>uri. built_tx (update_main B_ex W_ex (update_opts_ex ''zero.json'')) = Some (buildRegisterTx uri))"
proof -
  have z: "get_prop_opt (cfg_of 0) ''agentId'' = JNum 0" by (simp add: cfg_of_def)
  have l: "truthy (u_config (update_opts_ex ''zero.json'')) \<and>
      load_config B_ex (w_fs W_ex) (u_config (update_opts_ex ''zero.json'')) = Inr (cfg_of 0, snap_full)"
    by (simp add: update_opts_ex_def W_ex_def load_config_ex)
  obtain reg where reg: "buildRegistration fs_ex ''2026-01-02T00:00:00.000Z'' (cfg_of 0) = Inr reg"
    by (simp add: buildRegistration_def cfg_of_def Let_def fs_ex_snapshot with_default_def)
  have nu: "reg \<noteq> JUndefined"
    using reg by (auto simp: buildRegistration_def cfg_of_def Let_def fs_ex_snapshot with_default_def)
  then obtain uri where uri: "toBase64DataURI B_ex reg = Inr uri"
    by (simp add: toBase64DataURI_def B_ex_def json_stringify_def)
  note C = C10_agent_id_zero_is_unregistered
    [where config = "cfg_of 0" and fs = fs_ex and now = "''2026-01-02T00:00:00.000Z''"
       and opts = "update_opts_ex ''zero.json''" and B = B_ex and W = W_ex and newHashes = snap_full
       and ch = chain_ex and fe = fetch_ex]
  have reg': "buildRegistration (w_fs W_ex) (w_now W_ex) (cfg_of 0) = Inr reg"
    using reg by (simp add: W_ex_def)
  from C z l reg reg' uri show ?thesis
    by (intro conjI exI [of _ reg] exI [of _ uri]) blast+
qed

lemma load_config_hashes:
  "load_config B fs p = Inr (config, newHashes) \<Longrightarrow>
     hashIdentityFiles fs (get_prop_opt config ''workspacePath'') = Inr newHashes"
  by (auto simp: load_config_def split: sum.splits)

lemma diff_files_names:
  "map ch_file (diff_files newHashes onChain fl) =
     filter (\<lambda>f. \<not> strict_eq (entry_hash newHashes f) (get_prop_opt onChain f)) fl"
  by (induction fl) (auto simp: Let_def)

lemma diff_files_empty:
  "diff_files newHashes onChain fl = [] \<longleftrightarrow>
     (\<forall>f \<in> set fl. strict_eq (entry_hash newHashes f) (get_prop_opt onChain f))"
  by (induction fl) (auto simp: Let_def)

lemma update_main_registered:
  assumes "truthy (u_config opts)"
    and "load_config B (w_fs W) (u_config opts) = Inr (config, newHashes)"
    and "truthy (get_prop_opt config ''agentId'')"
    and "lookupAgent B (w_chain W) (w_fetch W) (get_prop_opt config ''agentId'') = Inr agent"
    and "truthy (get_prop_opt (a_registration agent) ''identityFiles'')"
  shows "update_main B W opts =
     (if diff_files newHashes (get_prop_opt (a_registration agent) ''identityFiles'') IDENTITY_FILES = []
      then noop_run
      else (case build_tx B W config of
              Inl e \<Rightarrow>
                \<lparr>exit_code = 3, built_tx = None,
                 changes = diff_files newHashes (get_prop_opt (a_registration agent) ''identityFiles'') IDENTITY_FILES,
                 reports = [ChangesDetected, ErrorExit]\<rparr>
            | Inr (registration, tx) \<Rightarrow>
                \<lparr>exit_code = finish B W opts registration newHashes, built_tx = Some tx,
                 changes = diff_files newHashes (get_prop_opt (a_registration agent) ''identityFiles'') IDENTITY_FILES,
                 reports = [ChangesDetected, TxSetAgentURI]\<rparr>))"
  using assms
  by (simp add: update_main_def check_chain_def Let_def noop_run_def IDENTITY_FILES_def
        split: sum.splits prod.splits)

lemma entry_hash_identityFiles_of:
  assumes "hashIdentityFiles fs w = Inr newHashes" and "f \<in> set IDENTITY_FILES"
  shows "strict_eq (entry_hash newHashes f) (get_prop_opt (identityFiles_of t newHashes) f)"
proof -
  from hashIdentityFiles_entries [OF assms] obtain s where
    loc: "map_of (entries newHashes) f = Some (entry_of_read s f (fs (s @ ''/'' @ f)))" by blast
  have "get_prop_opt (identityFiles_of t newHashes) f = hash_or_null newHashes f"
    using assms(2) by (auto simp: identityFiles_of_def IDENTITY_FILES_def)
  then show ?thesis
    by (cases "fs (s @ ''/'' @ f)")
       (simp_all add: entry_hash_def hash_or_null_def loc entry_of_read_def present_entry_def
          missing_entry_def js_or_def)
qed

text \<open>
  Claim C9, as amended. When the configuration has an agent identifier and the registration
  on chain carries identity-file hashes, the workflow compares the hash of each of the three
  documents with the hash on chain; the composite is not compared. If the three agree, the
  run is the reported no-op: exit code 0, no transaction, no changes. If one differs, the
  changes are exactly the differing documents and the run is not reported as a no-op. In
  particular, when the hashes on chain are those of the fresh snapshot, which is what a
  previous run over the same documents published, the run is the no-op.
\<close>

theorem C9_update_noop_when_hashes_match:
  assumes "truthy (u_config opts)"
    and "load_config B (w_fs W) (u_config opts) = Inr (config, newHashes)"
    and "truthy (get_prop_opt config ''agentId'')"
    and "lookupAgent B (w_chain W) (w_fetch W) (get_prop_opt config ''agentId'') = Inr agent"
    and "truthy (get_prop_opt (a_registration agent) ''identityFiles'')"
  shows
    "((\<forall>f \<in> set IDENTITY_FILES.
         strict_eq (entry_hash newHashes f)
           (get_prop_opt (get_prop_opt (a_registration agent) ''identityFiles'') f)) \<longrightarrow>
        update_main B W opts =
          \<lparr>exit_code = 0, built_tx = None, changes = [], reports = [NoUpdateNeeded]\<rparr>) \<and>
     ((\<exists>f \<in> set IDENTITY_FILES.
         \<not> strict_eq (entry_hash newHashes f)
             (get_prop_opt (get_prop_opt (a_registration agent) ''identityFiles'') f)) \<longrightarrow>
        map ch_file (changes (update_main B W opts)) =
          filter (\<lambda>f. \<not> strict_eq (entry_hash newHashes f)
                         (get_prop_opt (get_prop_opt (a_registration agent) ''identityFiles'') f))
            IDENTITY_FILES \<and>
        hd (reports (update_main B W opts)) = ChangesDetected \<and>
        NoUpdateNeeded \<notin> set (reports (update_main B W opts))) \<and>
     ((\<exists>t. get_prop_opt (a_registration agent) ''identityFiles'' = identityFiles_of t newHashes) \<longrightarrow>
        update_main B W opts =
          \<lparr>exit_code = 0, built_tx = None, changes = [], reports = [NoUpdateNeeded]\<rparr>)"
proof -
  let ?oc = "get_prop_opt (a_registration agent) ''identityFiles''"
  note um = update_main_registered [OF assms]
  have 1: "update_main B W opts = \<lparr>exit_code = 0, built_tx = None, changes = [], reports = [NoUpdateNeeded]\<rparr>"
    if "\<forall>f \<in> set IDENTITY_FILES. strict_eq (entry_hash newHashes f) (get_prop_opt ?oc f)"
    using that unfolding um by (simp add: diff_files_empty noop_run_def)
  have 2: "map ch_file (changes (update_main B W opts)) =
          filter (\<lambda>f. \<not> strict_eq (entry_hash newHashes f) (get_prop_opt ?oc f)) IDENTITY_FILES \<and>
        hd (reports (update_main B W opts)) = ChangesDetected \<and>
        NoUpdateNeeded \<notin> set (reports (update_main B W opts))"
    if "\<exists>f \<in> set IDENTITY_FILES. \<not> strict_eq (entry_hash newHashes f) (get_prop_opt ?oc f)"
  proof -
    from that have ne: "diff_files newHashes ?oc IDENTITY_FILES \<noteq> []"
      by (simp add: diff_files_empty)
    show ?thesis
      unfolding um using ne by (simp add: diff_files_names split: sum.splits prod.splits)
  qed
  have 3: "update_main B W opts = \<lparr>exit_code = 0, built_tx = None, changes = [], reports = [NoUpdateNeeded]\<rparr>"
    if "\<exists>t. ?oc = identityFiles_of t newHashes"
  proof -
    from that obtain t where t: "?oc = identityFiles_of t newHashes" by blast
    have "\<forall>f \<in> set IDENTITY_FILES. strict_eq (entry_hash newHashes f) (get_prop_opt ?oc f)"
      unfolding t using entry_hash_identityFiles_of [OF load_config_hashes [OF assms(2)]] by blast
    then show ?thesis by (rule 1)
  qed
  from 1 2 3 show ?thesis by blast
qed

lemma lookupAgent_ex:
  "lookupAgent B_ex chain_ex fetch_ex (JNum 7) =
     Inr \<lparr>a_agentId = JNum 7, a_owner = ''0x00000000000000000000000000000000000000aa'',
          a_tokenURI = ''https://example.org/current.json'', a_agentWallet = JNull,
          a_registration = reg_current\<rparr>"
  "lookupAgent B_ex chain_ex fetch_ex (JNum 8) =
     Inr \<lparr>a_agentId = JNum 8, a_owner = ''0x00000000000000000000000000000000000000aa'',
          a_tokenURI = ''https://example.org/stale.json'', a_agentWallet = JNull,
          a_registration = reg_stale\<rparr>"
  by (simp_all add: lookupAgent_def B_ex_def chain_ex_def fetch_ex_def fetchRegistrationFile_def
        fetch_body_def gateway_url_def)

text \<open>Agent 7: the registration on chain was built from the present documents.\<close>

theorem C9_witness:
  "update_main B_ex W_ex (update_opts_ex ''seven.json'') =
     \<lparr>exit_code = 0, built_tx = None, changes = [], reports = [NoUpdateNeeded]\<rparr>"
proof -
  have a: "get_prop_opt (cfg_of 7) ''agentId'' = JNum 7" by (simp add: cfg_of_def)
  have "truthy (u_config (update_opts_ex ''seven.json''))"
    and "load_config B_ex (w_fs W_ex) (u_config (update_opts_ex ''seven.json'')) = Inr (cfg_of 7, snap_full)"
    and "truthy (get_prop_opt (cfg_of 7) ''agentId'')"
    and "lookupAgent B_ex (w_chain W_ex) (w_fetch W_ex) (get_prop_opt (cfg_of 7) ''agentId'') =
           Inr \<lparr>a_agentId = JNum 7, a_owner = ''0x00000000000000000000000000000000000000aa'',
                a_tokenURI = ''https://example.org/current.json'', a_agentWallet = JNull,
                a_registration = reg_current\<rparr>"
    and "truthy (get_prop_opt (a_registration \<lparr>a_agentId = JNum 7, a_owner = ''0x00000000000000000000000000000000000000aa'',
                a_tokenURI = ''https://example.org/current.json'', a_agentWallet = JNull,
                a_registration = reg_current\<rparr>) ''identityFiles'')"
    by (simp_all add: update_opts_ex_def W_ex_def load_config_ex a lookupAgent_ex reg_current_def
          identityFiles_of_def)
  note C = C9_update_noop_when_hashes_match [OF this]
  have ex: "\<exists>t. get_prop_opt (a_registration \<lparr>a_agentId = JNum 7, a_owner = ''0x00000000000000000000000000000000000000aa'',
                a_tokenURI = ''https://example.org/current.json'', a_agentWallet = JNull,
                a_registration = reg_current\<rparr>) ''identityFiles'' = identityFiles_of t snap_full"
    by (rule exI [of _ "''2026-01-01T00:00:00.000Z''"]) (simp add: reg_current_def)
  from C [THEN conjunct2, THEN conjunct2] ex show ?thesis by (rule mp)
qed

text \<open>
  Claim C9 as stated fails where it has the composite compared: for agent 8 the composite on
  chain differs from the fresh composite, and the run still reports that nothing changed and
  builds no transaction.
\<close>

theorem C9_counterexample:
  "update_main B_ex W_ex (update_opts_ex ''eight.json'') =
     \<lparr>exit_code = 0, built_tx = None, changes = [], reports = [NoUpdateNeeded]\<rparr> \<and>
   get_prop_opt (get_prop_opt reg_stale ''identityFiles'') ''_composite'' \<noteq>
     JStr (c_hash (s_composite snap_full)) \<and>
   lookupAgent B_ex (w_chain W_ex) (w_fetch W_ex) (JNum 8) =
     Inr \<lparr>a_agentId = JNum 8, a_owner = ''0x00000000000000000000000000000000000000aa'',
          a_tokenURI = ''https://example.org/stale.json'', a_agentWallet = JNull,
          a_registration = reg_stale\<rparr> \<and>
   load_config B_ex (w_fs W_ex) (JStr ''eight.json'') = Inr (cfg_of 8, snap_full)"
proof -
  have len: "length (c_hash (s_composite snap_full)) = 66"
    by (simp add: snap_full_def)
  have ne: "get_prop_opt (get_prop_opt reg_stale ''identityFiles'') ''_composite'' \<noteq>
     JStr (c_hash (s_composite snap_full))"
  proof
    assume "get_prop_opt (get_prop_opt reg_stale ''identityFiles'') ''_composite'' =
      JStr (c_hash (s_composite snap_full))"
    then have "''0x00'' = c_hash (s_composite snap_full)" by (simp add: reg_stale_def)
    then have "length ''0x00'' = length (c_hash (s_composite snap_full))" by (rule arg_cong)
    with len show False by simp
  qed
  have um: "update_main B_ex W_ex (update_opts_ex ''eight.json'') =
     \<lparr>exit_code = 0, built_tx = None, changes = [], reports = [NoUpdateNeeded]\<rparr>"
    by (simp add: update_main_def update_opts_ex_def W_ex_def load_config_ex check_chain_def
          cfg_of_def lookupAgent_ex reg_stale_def Let_def entry_hash_def snap_full_def)
  show ?thesis
    using ne um by (simp add: W_ex_def lookupAgent_ex load_config_ex)
qed

section \<open>Verify workflow: proofs\<close>

































section \<open>Chain client: proofs\<close>

text \<open>
  Claim C6. \<^verbatim>\<open>fetchRegistrationFile\<close> returns a value for every URI: \<^verbatim>\<open>null\<close> for the empty
  URI, for every error raised inside its \<^verbatim>\<open>try\<close> block (a payload that does not parse, a
  rejected or aborted fetch, a body that is not JSON), for a \<^verbatim>\<open>data:\<close> URI that matches
  neither pattern and for a response that is not OK. Hence, when the owner and token URI reads
  succeed, \<^verbatim>\<open>lookupAgent\<close> returns an agent whose registration is what the resolution
  returned, \<^verbatim>\<open>null\<close> whenever the resolution failed.
\<close>

theorem C6_resolution_never_raises:
  "(\<exists>v. fetchRegistrationFile B fetch uri = Inr v) \<and>
   (uri = [] \<longrightarrow> fetchRegistrationFile B fetch uri = Inr JNull) \<and>
   ((\<exists>e. fetch_body B fetch uri = Inl e) \<longrightarrow> fetchRegistrationFile B fetch uri = Inr JNull) \<and>
   (starts_with ''data:'' uri \<and> match_base64 uri = None \<and> match_plain uri = None \<longrightarrow>
      fetchRegistrationFile B fetch uri = Inr JNull) \<and>
   (\<not> starts_with ''data:'' uri \<and> (\<exists>e. fetch (gateway_url uri) = Inl e) \<longrightarrow>
      fetchRegistrationFile B fetch uri = Inr JNull) \<and>
   (\<not> starts_with ''data:'' uri \<and>
      (\<exists>res. fetch (gateway_url uri) = Inr res \<and> (\<not> ok res \<or> (\<exists>e. json res = Inl e))) \<longrightarrow>
      fetchRegistrationFile B fetch uri = Inr JNull) \<and>
   (BigInt B agentId = Inr tokenId \<and> ownerOf ch tokenId = Inr owner \<and> tokenURI ch tokenId = Inr uri \<longrightarrow>
      (\<exists>agent. lookupAgent B ch fetch agentId = Inr agent \<and>
         fetchRegistrationFile B fetch uri = Inr (a_registration agent) \<and>
         (uri = [] \<or> (\<exists>e. fetch_body B fetch uri = Inl e) \<longrightarrow> a_registration agent = JNull)))"
  by (auto simp: fetchRegistrationFile_def fetch_body_def lookupAgent_def Let_def split: sum.splits)

text \<open>
  The empty URI, a \<^verbatim>\<open>data:\<close> URI without payload, a base64 payload that is not JSON, a
  scheme that \<^verbatim>\<open>fetch\<close> rejects, and the lookup of agent 5, whose token URI is empty.
\<close>

theorem C6_witness:
  "fetchRegistrationFile B_ex fetch_ex [] = Inr JNull \<and>
   fetchRegistrationFile B_ex fetch_ex ''data:text/plain'' = Inr JNull \<and>
   fetchRegistrationFile B_ex fetch_ex ''data:application/json;base64,e3s='' = Inr JNull \<and>
   fetchRegistrationFile B_ex fetch_ex ''ftp://example.org/agent.json'' = Inr JNull \<and>
   (\<exists>agent. lookupAgent B_ex chain_ex fetch_ex (JNum 5) = Inr agent \<and> a_registration agent = JNull)"
proof -
  note C = C6_resolution_never_raises [of B_ex fetch_ex _ "JNum 5" 5 chain_ex
      "''0x00000000000000000000000000000000000000aa''"]
  have 1: "fetchRegistrationFile B_ex fetch_ex [] = Inr JNull"
    using C [of "[]"] by simp
  have 2: "fetchRegistrationFile B_ex fetch_ex ''data:text/plain'' = Inr JNull"
    using C [of "''data:text/plain''"] by (simp add: match_base64_def match_plain_def match_data_def)
  have "\<exists>e. fetch_body B_ex fetch_ex ''data:application/json;base64,e3s='' = Inl e"
    by (simp add: fetch_body_def match_base64_def match_data_def B_ex_def Buffer_toString_def
          Buffer_from_base64_def b64_value_def cfg_text_zero_def cfg_text_seven_def cfg_text_eight_def)
  then have 3: "fetchRegistrationFile B_ex fetch_ex ''data:application/json;base64,e3s='' = Inr JNull"
    using C [of "''data:application/json;base64,e3s=''"] by blast
  have 4: "fetchRegistrationFile B_ex fetch_ex ''ftp://example.org/agent.json'' = Inr JNull"
    using C [of "''ftp://example.org/agent.json''"] by (simp add: fetch_ex_def gateway_url_def)
  have 5: "\<exists>agent. lookupAgent B_ex chain_ex fetch_ex (JNum 5) = Inr agent \<and> a_registration agent = JNull"
    using C [of "[]"] by (auto simp: B_ex_def chain_ex_def)
  from 1 2 3 4 5 show ?thesis by blast
qed

end
